theory Spec2Isabelle
  imports Main
begin

section \<open>BLS API Explorer: the page script of app.py\<close>

text \<open>
  The application is one script that the UI framework runs again from top to bottom on
  every interaction. One run is modelled by the function \<open>main\<close>: it takes the process
  configuration, what the widgets and the external client hand back during this run, and
  the session state, and returns the new session state together with the elements the
  run has put on the page and the exception that ended it, if any.
\<close>

subsection \<open>Python values\<close>

datatype error =
    IndexError
  | KeyError string
  | AttributeError string
  | ClientError string

text \<open>
  \<open>str.isspace\<close> for one character. Characters are the code points below 256; the
  white-space characters among them are TAB..CR, FS..US, SPACE, NEL and NBSP.
\<close>

definition isspace :: "char \<Rightarrow> bool" where
  "isspace c = (of_char c \<in> {9, 10, 11, 12, 13, 28, 29, 30, 31, 32, 133, 160 :: nat})"

text \<open>\<open>s.strip()\<close>: leading and trailing white space removed.\<close>

definition strip :: "string \<Rightarrow> string" where
  "strip s = rev (dropWhile isspace (rev (dropWhile isspace s)))"

text \<open>\<open>a or b\<close> on strings: the empty string is the only false one.\<close>

definition str_or :: "string \<Rightarrow> string \<Rightarrow> string" where
  "str_or a b = (if a \<noteq> [] then a else b)"

text \<open>
  \<open>s.split(sep)\<close> for a one-character separator: the pieces between the separators,
  never an empty list.
\<close>

fun split :: "char \<Rightarrow> string \<Rightarrow> string list" where
  "split sep [] = [] # []"
| "split sep (c # cs) =
     (if c = sep then [] # split sep cs
      else (case split sep cs of
              [] \<Rightarrow> [c] # []
            | w # ws \<Rightarrow> (c # w) # ws))"

text \<open>\<open>xs[0]\<close>: raises IndexError on the empty list.\<close>

definition item0 :: "'a list \<Rightarrow> error + 'a" where
  "item0 xs = (case xs of [] \<Rightarrow> Inl IndexError | x # _ \<Rightarrow> Inr x)"

text \<open>\<open>str(n)\<close> for a natural number, and zero padding to a width.\<close>

fun digits :: "nat \<Rightarrow> string" where
  "digits n =
     (if n < 10 then [char_of (48 + n)]
      else digits (n div 10) @ [char_of (48 + n mod 10)])"

declare digits.simps [simp del]

definition zfill :: "nat \<Rightarrow> string \<Rightarrow> string" where
  "zfill w s = replicate (w - length s) (CHR ''0'') @ s"

text \<open>
  \<open>datetime.today().strftime('%Y-%m-%d')\<close>: the calendar date, the year on four
  digits, month and day on two.
\<close>

record date =
  year :: nat
  month :: nat
  day :: nat

definition strftime_Ymd :: "date \<Rightarrow> string" where
  "strftime_Ymd d =
     zfill 4 (digits (year d)) @ ''-'' @ zfill 2 (digits (month d)) @ ''-'' @
     zfill 2 (digits (day d))"

subsection \<open>Tables of the external client\<close>

text \<open>
  A \<open>pandas.DataFrame\<close>: the column names in order and the rows, each cell already
  text. \<open>DataFrame.empty\<close> holds when one of the two axes has length 0, and
  \<open>pd.DataFrame()\<close> is the frame with neither columns nor rows.
\<close>

record table =
  df_columns :: "string list"
  df_rows :: "string list list"

definition empty :: "table \<Rightarrow> bool" where
  "empty t = (df_columns t = [] \<or> df_rows t = [])"

definition DataFrame0 :: table where
  "DataFrame0 = \<lparr>df_columns = [], df_rows = []\<rparr>"

text \<open>
  \<open>DataFrame.to_csv(index=...)\<close> with the library's defaults: comma separated, a header
  line of the column names, one line per row, fields quoted only when they hold a comma,
  a double quote or a line break; a line made of one empty field is written as two double
  quotes. With \<open>index=True\<close> every line starts with the row label (the row number), the
  header with an empty field.
\<close>

definition csv_field :: "string \<Rightarrow> string" where
  "csv_field s =
     (if list_ex (\<lambda>c. c \<in> {CHR '','', CHR 0x22, CHR 0x0A, CHR 0x0D}) s
      then [CHR 0x22] @ concat (map (\<lambda>c. if c = CHR 0x22 then [c, c] else [c]) s) @ [CHR 0x22]
      else s)"

fun join :: "string \<Rightarrow> string list \<Rightarrow> string" where
  "join sep [] = []"
| "join sep [x] = x"
| "join sep (x # y # ys) = x @ sep @ join sep (y # ys)"

definition csv_line :: "string list \<Rightarrow> string" where
  "csv_line cells =
     (if cells = [] # [] then [CHR 0x22, CHR 0x22] else join '','' (map csv_field cells)) @
     [CHR 0x0A]"

definition to_csv :: "table \<Rightarrow> bool \<Rightarrow> string" where
  "to_csv t index =
     (if index
      then csv_line ([] # df_columns t) @
           concat (map (\<lambda>(i, r). csv_line (digits i # r)) (enumerate 0 (df_rows t)))
      else csv_line (df_columns t) @ concat (map csv_line (df_rows t)))"

text \<open>
  What \<open>get_bls_data\<close> hands back as \<open>data\<close> is tested with
  \<open>isinstance(data, pd.DataFrame)\<close> by the script, so the model keeps both cases.
\<close>

datatype pyobj = DataFrame table | NotDataFrame

subsection \<open>Survey metadata\<close>

text \<open>
  One entry of \<open>metadata['series']\<close>: the key \<open>'id'\<close> is read with \<open>series['id']\<close>,
  the key \<open>'title'\<close> with \<open>series.get('title', '')\<close>, so the title may be absent.
\<close>

record series_entry =
  id_field :: string
  title_field :: "string option"

text \<open>
  The survey metadata as far as the script reads it after the page header: the year
  bounds, as \<open>int(...)\<close> of the stored values, and the series list.
\<close>

record metadata =
  survey_minimum_year :: int
  survey_maximum_year :: int
  series :: "series_entry list"

definition get_title :: "series_entry \<Rightarrow> string" where
  "get_title s = (case title_field s of None \<Rightarrow> [] | Some t \<Rightarrow> t)"

definition prepare_series_picklist :: "metadata \<Rightarrow> string list" where
  "prepare_series_picklist md =
     (let series_ids = map id_field (series md);
          series_titles = map get_title (series md)
      in map (\<lambda>(series_id, title). series_id @ '': '' @ title) (zip series_ids series_titles))"

subsection \<open>Session state, widgets and page elements\<close>

text \<open>
  The value stored under \<open>"bls_params"\<close>, and \<open>st.session_state\<close> itself: a key of the
  session state is absent (\<open>None\<close>) or holds a value.
\<close>

record bls_params =
  p_seriesids :: "string list"
  p_startyear :: int
  p_endyear :: int
  p_registrationkey :: string
  p_survey_name :: string
  p_survey :: string

record session_state =
  ss_user_registrationkey :: "string option"
  ss_bls_data :: "pyobj option"
  ss_bls_log :: "table option"
  ss_bls_params :: "bls_params option"
  ss_show_balloons :: "bool option"

definition session_state0 :: session_state where
  "session_state0 =
     \<lparr>ss_user_registrationkey = None, ss_bls_data = None, ss_bls_log = None,
      ss_bls_params = None, ss_show_balloons = None\<rparr>"

text \<open>
  A widget hands back what the user has put into it, or the default value the script
  gave it when the user has not touched it. What the user did during one run:
\<close>

record widgets =
  key_entry :: "string option"
  year_entry :: "(int \<times> int) option"
  series_selection :: "string list option"
  get_data_pressed :: bool

definition widget_value :: "'a \<Rightarrow> 'a option \<Rightarrow> 'a" where
  "widget_value dflt entry = (case entry of None \<Rightarrow> dflt | Some v \<Rightarrow> v)"

text \<open>
  An f-string is kept as its parts: literal text and the substituted expressions, each
  with the expression's source text and its value.
\<close>

datatype pyval = PyStr string | PyInt int | PyList "string list"

datatype fpart = Lit string | Sub string pyval

text \<open>
  The elements a run puts on the page, one constructor per framework call of the query
  builder and the result presenter. Headings, the success banner and the license notice
  are \<open>st.markdown\<close> calls with fixed markup; \<open>Download_button\<close> carries label, data,
  file name and MIME type.
\<close>

datatype element =
    Heading string
  | Text_input string string
  | Slider string int int "int \<times> int"
  | Multiselect string "string list" "string list"
  | Form_submit_button string
  | Write_table table
  | Write_text string
  | Write_obj pyobj
  | Balloons
  | Success_banner
  | Download_button string string string string
  | Tabs "string list"
  | Code "fpart list"
  | License_notice

subsection \<open>display_api_query_builder\<close>

text \<open>\<open>[series_id.split(':')[0] for series_id in selected_seriesids]\<close>, element by element.\<close>

fun collect :: "('a \<Rightarrow> error + 'b) \<Rightarrow> 'a list \<Rightarrow> error + 'b list" where
  "collect f [] = Inr []"
| "collect f (x # xs) =
     (case f x of
        Inl e \<Rightarrow> Inl e
      | Inr y \<Rightarrow> (case collect f xs of Inl e \<Rightarrow> Inl e | Inr ys \<Rightarrow> Inr (y # ys)))"

text \<open>
  The key of the session state is initialised to the empty string when absent; the text
  input shows the stored key; a non-empty stripped entry that differs from the stored key
  replaces it; the key to use is the stored one, or the demo key when that is empty.
  The slider gets the bounds and the default \<open>(maximum_year - 5, maximum_year)\<close>. The
  multi-select gets the first picklist entry as its default.
\<close>

definition display_api_query_builder ::
  "(string \<rightharpoonup> string) \<Rightarrow> string list \<Rightarrow> int \<Rightarrow> int \<Rightarrow> widgets \<Rightarrow> session_state \<Rightarrow>
   session_state \<times> element list \<times> (error + bool \<times> string \<times> int \<times> int \<times> string list)" where
  "display_api_query_builder secrets series_picklist minimum_year maximum_year w st =
     (let demo_registrationkey = (case secrets ''bls_api_key'' of None \<Rightarrow> [] | Some k \<Rightarrow> k);
          stored = (case ss_user_registrationkey st of None \<Rightarrow> [] | Some k \<Rightarrow> k);
          user_registrationkey = widget_value stored (key_entry w);
          stored' = (if strip user_registrationkey \<noteq> [] \<and> strip user_registrationkey \<noteq> stored
                     then strip user_registrationkey else stored);
          st' = st\<lparr>ss_user_registrationkey := Some stored'\<rparr>;
          registrationkey = str_or stored' demo_registrationkey;
          year_default = (maximum_year - 5, maximum_year);
          year_range = widget_value year_default (year_entry w);
          startyear = fst year_range;
          endyear = snd year_range;
          ui = [Heading ''API Query Builder: Build Your Own Request'',
                Text_input ''Enter Your BLS API Key'' stored,
                Slider ''Select Year Range'' minimum_year maximum_year year_default]
      in case item0 series_picklist of
           Inl e \<Rightarrow> (st', ui, Inl e)
         | Inr first_entry \<Rightarrow>
             (let selected_seriesids = widget_value [first_entry] (series_selection w);
                  submit_button = get_data_pressed w;
                  ui' = ui @
                    [Multiselect (''Select 1 or more series ('' @ digits (length series_picklist) @
                                  '' available)'') series_picklist [first_entry],
                     Form_submit_button ''Get Data'']
              in case collect (\<lambda>series_id. item0 (split (CHR '':'') series_id)) selected_seriesids of
                   Inl e \<Rightarrow> (st', ui', Inl e)
                 | Inr seriesids \<Rightarrow>
                     (st', ui', Inr (submit_button, registrationkey, startyear, endyear, seriesids))))"

subsection \<open>display_output\<close>

text \<open>
  With a non-empty log only the log is written. Otherwise: the balloons when the flag
  \<open>"show_balloons"\<close> is set, which clears it; the success banner; the data; the download
  button when the data are a DataFrame. The current date is an argument.
\<close>

definition display_output ::
  "pyobj \<Rightarrow> table \<Rightarrow> string \<Rightarrow> date \<Rightarrow> session_state \<Rightarrow> session_state \<times> element list" where
  "display_output data log survey today st =
     (if \<not> empty log then (st, [Write_table log])
      else
        (let show_balloons = (case ss_show_balloons st of None \<Rightarrow> False | Some b \<Rightarrow> b);
             st' = (if show_balloons then st\<lparr>ss_show_balloons := Some False\<rparr> else st);
             todays_date = strftime_Ymd today
         in (st',
             (if show_balloons then [Balloons] else []) @
             [Success_banner, Write_text [], Heading ''Output:'', Write_obj data] @
             (case data of
                DataFrame df \<Rightarrow>
                  [Download_button ''Download CSV File'' (to_csv df False)
                     (todays_date @ '' '' @ survey @ ''.csv'') ''text/csv'']
              | NotDataFrame \<Rightarrow> []) @
             [Write_text []])))"

subsection \<open>display_code\<close>

definition data_text1 :: string where
  "data_text1 =
     ''\<newline>'' @
     ''            # First, install the required package:\<newline>'' @
     ''            # pip install py-bls-api\<newline>'' @
     ''            \<newline>'' @
     ''            import pandas as pd\<newline>'' @
     ''            from py_bls_api import get_surveys, get_bls_data, get_survey_metadata\<newline>'' @
     ''        \<newline>'' @
     ''            data, log = get_bls_data(seriesids=''"

definition data_text2 :: string where
  "data_text2 =
     '', \<newline>'' @
     ''                                     startyear=''"

definition data_text3 :: string where
  "data_text3 =
     '', \<newline>'' @
     ''                                     endyear=''"

definition data_text4 :: string where
  "data_text4 =
     '', \<newline>'' @
     ''                                     registrationkey='' @
     [CHR 0x27]"

definition data_text5 :: string where
  "data_text5 =
     [CHR 0x27] @
     '', \<newline>'' @
     ''                                     return_logs=True)\<newline>'' @
     ''        \<newline>'' @
     ''            ''"

definition metadata_text1 :: string where
  "metadata_text1 =
     ''\<newline>'' @
     ''            import pandas as pd\<newline>'' @
     ''            from py_bls_api import get_surveys, get_survey_metadata, get_data_preview, get_seriesid_metadata, get_popular_seriesids\<newline>'' @
     ''    \<newline>'' @
     ''            # Returns a dictionary of BLS surveys supported by py-bls-api.\<newline>'' @
     ''            surveys = get_surveys()\<newline>'' @
     ''               \<newline>'' @
     ''            # Returns a dictionary containing metadata for a given survey\<newline>'' @
     ''            survey_metadata = get_survey_metadata('' @
     [CHR 0x27]"

definition metadata_text2 :: string where
  "metadata_text2 =
     [CHR 0x27] @
     '')\<newline>'' @
     ''            \<newline>'' @
     ''            # Returns a dataframe containing a data preview for a given survey        \<newline>'' @
     ''            data_preview = get_data_preview('' @
     [CHR 0x27]"

definition metadata_text3 :: string where
  "metadata_text3 =
     [CHR 0x27] @
     '')\<newline>'' @
     ''            \<newline>'' @
     ''            # Returns a dataframe containing Series ID metadata for a given survey.\<newline>'' @
     ''            seriesid_metadata = get_seriesid_metadata('' @
     [CHR 0x27]"

definition metadata_text4 :: string where
  "metadata_text4 =
     [CHR 0x27] @
     '')        \<newline>'' @
     ''            \<newline>'' @
     ''            # Returns a list of popular BLS Series IDs for a given survey.\<newline>'' @
     ''            popular_seriesids = get_popular_seriesids('' @
     [CHR 0x27]"

definition metadata_text5 :: string where
  "metadata_text5 =
     [CHR 0x27] @
     '', '' @
     [CHR 0x27]"

definition metadata_text6 :: string where
  "metadata_text6 =
     [CHR 0x27] @
     '')  \<newline>'' @
     ''            \<newline>'' @
     ''            ''"

definition data_script :: "string list \<Rightarrow> int \<Rightarrow> int \<Rightarrow> string \<Rightarrow> fpart list" where
  "data_script seriesids startyear endyear api_key_to_show =
     [Lit data_text1, Sub ''seriesids'' (PyList seriesids),
      Lit data_text2, Sub ''startyear'' (PyInt startyear),
      Lit data_text3, Sub ''endyear'' (PyInt endyear),
      Lit data_text4, Sub ''api_key_to_show'' (PyStr api_key_to_show),
      Lit data_text5]"

definition metadata_script :: "string \<Rightarrow> string \<Rightarrow> fpart list" where
  "metadata_script survey_name api_key_to_show =
     [Lit metadata_text1, Sub ''survey_name'' (PyStr survey_name),
      Lit metadata_text2, Sub ''survey_name'' (PyStr survey_name),
      Lit metadata_text3, Sub ''survey_name'' (PyStr survey_name),
      Lit metadata_text4, Sub ''survey_name'' (PyStr survey_name),
      Lit metadata_text5, Sub ''api_key_to_show'' (PyStr api_key_to_show),
      Lit metadata_text6]"

text \<open>
  \<open>st.secrets.get("bls_api_key")\<close> is \<open>None\<close> when the secret is absent, and no string
  equals \<open>None\<close>.
\<close>

definition api_key_to_show :: "(string \<rightharpoonup> string) \<Rightarrow> string \<Rightarrow> string" where
  "api_key_to_show secrets registrationkey =
     (if Some registrationkey = secrets ''bls_api_key'' then ''your_api_key''
      else registrationkey)"

definition display_code ::
  "(string \<rightharpoonup> string) \<Rightarrow> table \<Rightarrow> string list \<Rightarrow> int \<Rightarrow> int \<Rightarrow> string \<Rightarrow> string \<Rightarrow>
   element list" where
  "display_code secrets data seriesids startyear endyear registrationkey survey_name =
     (if \<not> empty data then
        [Heading ''Python Code:'',
         Tabs [''Data'', ''Metadata'', ''License''],
         Code (data_script seriesids startyear endyear (api_key_to_show secrets registrationkey)),
         Code (metadata_script survey_name (api_key_to_show secrets registrationkey)),
         License_notice]
      else [])"

subsection \<open>main\<close>

text \<open>
  What one run receives: the survey abbreviation and name chosen in the survey picker,
  the metadata loaded for it, the user's widget input, the external client during this
  run (\<open>get_bls_data\<close> with \<open>catalog=True\<close> and \<open>return_logs=True\<close>, as a function of
  series ids, start year, end year and key: it returns data and log, or raises), and the
  current date.
\<close>

record page_input =
  in_survey :: string
  in_survey_name :: string
  in_metadata :: metadata
  in_widgets :: widgets
  in_get_bls_data :: "string list \<Rightarrow> int \<Rightarrow> int \<Rightarrow> string \<Rightarrow> error + pyobj \<times> table"
  in_today :: date

text \<open>
  The part of \<open>main\<close> that handles a submission: the call of the client, then the
  three stores, then the animation flag. An exception of the client leaves the session
  state as it is.
\<close>

definition handle_submission ::
  "page_input \<Rightarrow> bool \<times> string \<times> int \<times> int \<times> string list \<Rightarrow> session_state \<Rightarrow>
   error + session_state" where
  "handle_submission inp q st =
     (case q of (submitted, registrationkey, startyear, endyear, seriesids) \<Rightarrow>
        if submitted then
          (case in_get_bls_data inp seriesids startyear endyear registrationkey of
             Inl e \<Rightarrow> Inl e
           | Inr (data, log) \<Rightarrow>
               Inr (st\<lparr>ss_bls_data := Some data,
                       ss_bls_log := Some log,
                       ss_bls_params := Some
                         \<lparr>p_seriesids = seriesids, p_startyear = startyear,
                          p_endyear = endyear, p_registrationkey = registrationkey,
                          p_survey_name = in_survey_name inp, p_survey = in_survey inp\<rparr>,
                       ss_show_balloons := Some True\<rparr>))
        else Inr st)"

text \<open>
  The part of \<open>main\<close> that shows the stored result: only when \<open>"bls_data"\<close> is stored
  and is a DataFrame; \<open>st.session_state["bls_params"]\<close> raises KeyError when absent.
\<close>

definition display_results ::
  "(string \<rightharpoonup> string) \<Rightarrow> date \<Rightarrow> session_state \<Rightarrow> session_state \<times> element list \<times> error option" where
  "display_results secrets today st =
     (case ss_bls_data st of
        Some (DataFrame df) \<Rightarrow>
          (case ss_bls_params st of
             None \<Rightarrow> (st, [], Some (KeyError ''bls_params''))
           | Some params \<Rightarrow>
               (let log = (case ss_bls_log st of None \<Rightarrow> DataFrame0 | Some l \<Rightarrow> l);
                    (st', out) = display_output (DataFrame df) log (p_survey params) today st;
                    code = display_code secrets df (p_seriesids params) (p_startyear params)
                             (p_endyear params) (p_registrationkey params) (p_survey_name params)
                in (st', out @ code, None)))
      | _ \<Rightarrow> (st, [], None))"

definition main ::
  "(string \<rightharpoonup> string) \<Rightarrow> page_input \<Rightarrow> session_state \<Rightarrow> session_state \<times> element list \<times> error option" where
  "main secrets inp st =
     (let metadata = in_metadata inp;
          minimum_year = survey_minimum_year metadata;
          maximum_year = survey_maximum_year metadata;
          series_picklist = prepare_series_picklist metadata
      in case display_api_query_builder secrets series_picklist minimum_year maximum_year
                (in_widgets inp) st of
           (st1, ui, Inl e) \<Rightarrow> (st1, ui, Some e)
         | (st1, ui, Inr q) \<Rightarrow>
             (case handle_submission inp q st1 of
                Inl e \<Rightarrow> (st1, ui, Some e)
              | Inr st2 \<Rightarrow>
                  (case display_results secrets (in_today inp) st2 of
                     (st3, out, err) \<Rightarrow> (st3, ui @ out, err))))"

subsection \<open>Notions used in the statements\<close>

text \<open>
  The key that lines 192 to 201 of the builder leave in the session state: the stripped
  text of the input when it is non-empty and differs from the stored key, the stored key
  otherwise.
\<close>

definition resolve_stored :: "session_state \<Rightarrow> widgets \<Rightarrow> string" where
  "resolve_stored st w =
     (let stored = (case ss_user_registrationkey st of None \<Rightarrow> [] | Some k \<Rightarrow> k);
          u = strip (widget_value stored (key_entry w))
      in if u \<noteq> [] \<and> u \<noteq> stored then u else stored)"

text \<open>The picklist entry of one series, \<open>f"{series_id}: {title}"\<close>.\<close>

definition picklist_entry :: "series_entry \<Rightarrow> string" where
  "picklist_entry s = id_field s @ '': '' @ (case title_field s of None \<Rightarrow> [] | Some t \<Rightarrow> t)"


text \<open>The call of the query builder that \<open>main\<close> makes for a page input.\<close>

definition builder_of ::
  "(string \<rightharpoonup> string) \<Rightarrow> page_input \<Rightarrow> session_state \<Rightarrow>
   session_state \<times> element list \<times> (error + bool \<times> string \<times> int \<times> int \<times> string list)" where
  "builder_of secrets inp st =
     display_api_query_builder secrets (prepare_series_picklist (in_metadata inp))
       (survey_minimum_year (in_metadata inp)) (survey_maximum_year (in_metadata inp))
       (in_widgets inp) st"

text \<open>The elements the query builder puts on the page.\<close>

fun builder_element :: "element \<Rightarrow> bool" where
  "builder_element (Heading h) = (h = ''API Query Builder: Build Your Own Request'')"
| "builder_element (Text_input l v) = True"
| "builder_element (Slider l a b d) = True"
| "builder_element (Multiselect l opts d) = True"
| "builder_element (Form_submit_button l) = True"
| "builder_element _ = False"

text \<open>
  A sequence of runs of the script in one session; the session state survives a run that
  ends with an exception.
\<close>

fun run :: "(string \<rightharpoonup> string) \<Rightarrow> page_input list \<Rightarrow> session_state \<Rightarrow> session_state" where
  "run secrets [] st = st"
| "run secrets (inp # inps) st = run secrets inps (fst (main secrets inp st))"

text \<open>The three keys \<open>"bls_data"\<close>, \<open>"bls_log"\<close> and \<open>"bls_params"\<close> of the session state.\<close>

definition stored_result ::
  "session_state \<Rightarrow> pyobj option \<times> table option \<times> bls_params option" where
  "stored_result st = (ss_bls_data st, ss_bls_log st, ss_bls_params st)"

text \<open>
  The submission of a run, if it has one whose client call returns: the data and the log
  the client returns for the request of the builder, with the parameters of this request.
\<close>

definition submission ::
  "(string \<rightharpoonup> string) \<Rightarrow> page_input \<Rightarrow> session_state \<Rightarrow> (pyobj \<times> table \<times> bls_params) option" where
  "submission secrets inp st =
     (case snd (snd (builder_of secrets inp st)) of
        Inl e \<Rightarrow> None
      | Inr (submitted, registrationkey, startyear, endyear, seriesids) \<Rightarrow>
          if submitted then
            (case in_get_bls_data inp seriesids startyear endyear registrationkey of
               Inl e \<Rightarrow> None
             | Inr (data, log) \<Rightarrow>
                 Some (data, log,
                   \<lparr>p_seriesids = seriesids, p_startyear = startyear, p_endyear = endyear,
                    p_registrationkey = registrationkey, p_survey_name = in_survey_name inp,
                    p_survey = in_survey inp\<rparr>))
          else None)"

text \<open>The submission of the last run that has one, in a sequence of runs.\<close>

fun last_submission ::
  "(string \<rightharpoonup> string) \<Rightarrow> page_input list \<Rightarrow> session_state \<Rightarrow>
   (pyobj \<times> table \<times> bls_params) option" where
  "last_submission secrets [] st = None"
| "last_submission secrets (inp # inps) st =
     (case last_submission secrets inps (fst (main secrets inp st)) of
        Some r \<Rightarrow> Some r
      | None \<Rightarrow> submission secrets inp st)"

text \<open>
  A cell that \<open>to_csv\<close> writes as it is, and a line of such cells that is neither empty
  nor one empty field.
\<close>

definition plain :: "string \<Rightarrow> bool" where
  "plain s = (\<not> list_ex (\<lambda>c. c \<in> {CHR '','', CHR 0x22, CHR 0x0A, CHR 0x0D}) s)"

definition plain_row :: "string list \<Rightarrow> bool" where
  "plain_row cells = (cells \<noteq> [] \<and> cells \<noteq> [] # [] \<and> list_all plain cells)"

text \<open>
  The inputs of the examples: users who touch nothing, type a key, select series or press
  the button; a configuration with a demo key; a survey with three series and one with
  none; a data table and a log table; page inputs whose client returns an empty or a
  non-empty log, with data that are a DataFrame or are not; the session states after such
  runs and the elements of the query builder on the example page.
\<close>

definition no_input :: widgets where
  "no_input = \<lparr>key_entry = None, year_entry = None, series_selection = None, get_data_pressed = False\<rparr>"

definition typed :: "string \<Rightarrow> widgets" where
  "typed s = \<lparr>key_entry = Some s, year_entry = None, series_selection = None, get_data_pressed = False\<rparr>"

definition demo_secrets :: "string \<rightharpoonup> string" where
  "demo_secrets = [''bls_api_key'' \<mapsto> ''DEMOKEY'']"

definition lns :: series_entry where
  "lns = \<lparr>id_field = ''LNS14000000'', title_field = Some ''Unemployment Rate''\<rparr>"

definition ces :: series_entry where
  "ces = \<lparr>id_field = ''CES0000000001'', title_field = Some ''Total Nonfarm: all''\<rparr>"

definition untitled :: series_entry where
  "untitled = \<lparr>id_field = ''SID123'', title_field = None\<rparr>"

definition example_metadata :: metadata where
  "example_metadata =
     \<lparr>survey_minimum_year = 1990, survey_maximum_year = 2024, series = [untitled, lns, ces]\<rparr>"

definition selecting :: "string list \<Rightarrow> widgets" where
  "selecting sel = \<lparr>key_entry = None, year_entry = None, series_selection = Some sel,
     get_data_pressed = True\<rparr>"

definition no_series :: metadata where
  "no_series = \<lparr>survey_minimum_year = 1990, survey_maximum_year = 2024, series = []\<rparr>"

definition example_frame :: table where
  "example_frame = \<lparr>df_columns = [''series_id'', ''year'', ''value''],
     df_rows = [''LNS14000000'', ''2024'', ''4.1''] # []\<rparr>"

definition example_log :: table where
  "example_log = \<lparr>df_columns = [''message''], df_rows = [''Series does not exist''] # []\<rparr>"

definition pressing :: widgets where
  "pressing = \<lparr>key_entry = None, year_entry = None, series_selection = None, get_data_pressed = True\<rparr>"

definition example_page :: "widgets \<Rightarrow> (error + pyobj \<times> table) \<Rightarrow> page_input" where
  "example_page w response =
     \<lparr>in_survey = ''CE'', in_survey_name = ''Consumer Expenditure Survey'',
      in_metadata = example_metadata, in_widgets = w,
      in_get_bls_data = (\<lambda>seriesids startyear endyear registrationkey. response),
      in_today = \<lparr>year = 2025, month = 6, day = 1\<rparr>\<rparr>"

definition success_page :: page_input where
  "success_page = example_page pressing (Inr (DataFrame example_frame, DataFrame0))"

definition failure_page :: page_input where
  "failure_page = example_page pressing (Inr (DataFrame example_frame, example_log))"

definition idle_page :: page_input where
  "idle_page = example_page no_input (Inl (ClientError ''not called''))"

definition first_params :: bls_params where
  "first_params = \<lparr>p_seriesids = [''SID123''], p_startyear = 2019, p_endyear = 2024,
     p_registrationkey = ''DEMOKEY'', p_survey_name = ''Consumer Expenditure Survey'',
     p_survey = ''CE''\<rparr>"

definition after_success :: session_state where
  "after_success =
     \<lparr>ss_user_registrationkey = Some [], ss_bls_data = Some (DataFrame example_frame),
      ss_bls_log = Some DataFrame0, ss_bls_params = Some first_params,
      ss_show_balloons = Some False\<rparr>"

definition after_failure :: session_state where
  "after_failure =
     \<lparr>ss_user_registrationkey = Some [], ss_bls_data = Some (DataFrame example_frame),
      ss_bls_log = Some example_log, ss_bls_params = Some first_params,
      ss_show_balloons = Some True\<rparr>"

definition unframed_failure_page :: page_input where
  "unframed_failure_page = example_page pressing (Inr (NotDataFrame, example_log))"

definition unframed_page :: page_input where
  "unframed_page = example_page pressing (Inr (NotDataFrame, DataFrame0))"

definition builder_page :: "element list" where
  "builder_page =
     [Heading ''API Query Builder: Build Your Own Request'',
      Text_input ''Enter Your BLS API Key'' [],
      Slider ''Select Year Range'' 1990 2024 (2019, 2024),
      Multiselect ''Select 1 or more series (3 available)''
        [''SID123: '', ''LNS14000000: Unemployment Rate'', ''CES0000000001: Total Nonfarm: all'']
        [''SID123: ''],
      Form_submit_button ''Get Data'']"

section \<open>Properties\<close>

subsection \<open>Auxiliary facts\<close>

lemma item0_split: "item0 (split sep s) = Inr (takeWhile (\<lambda>c. c \<noteq> sep) s)"
  by (induction s) (auto simp: item0_def split: list.splits)

lemma collect_item0_split:
  "collect (\<lambda>s. item0 (split sep s)) xs = Inr (map (takeWhile (\<lambda>c. c \<noteq> sep)) xs)"
  by (induction xs) (simp_all add: item0_split)

lemma builder_empty:
  "display_api_query_builder secrets [] Y0 Y1 w st =
     (st\<lparr>ss_user_registrationkey := Some (resolve_stored st w)\<rparr>,
      [Heading ''API Query Builder: Build Your Own Request'',
       Text_input ''Enter Your BLS API Key''
         (case ss_user_registrationkey st of None \<Rightarrow> [] | Some k \<Rightarrow> k),
       Slider ''Select Year Range'' Y0 Y1 (Y1 - 5, Y1)],
      Inl IndexError)"
  by (simp add: display_api_query_builder_def item0_def resolve_stored_def Let_def)

lemma builder_nonempty:
  "display_api_query_builder secrets (e # es) Y0 Y1 w st =
     (st\<lparr>ss_user_registrationkey := Some (resolve_stored st w)\<rparr>,
      [Heading ''API Query Builder: Build Your Own Request'',
       Text_input ''Enter Your BLS API Key''
         (case ss_user_registrationkey st of None \<Rightarrow> [] | Some k \<Rightarrow> k),
       Slider ''Select Year Range'' Y0 Y1 (Y1 - 5, Y1),
       Multiselect (''Select 1 or more series ('' @ digits (length (e # es)) @ '' available)'')
         (e # es) [e],
       Form_submit_button ''Get Data''],
      Inr (get_data_pressed w,
           str_or (resolve_stored st w)
             (case secrets ''bls_api_key'' of None \<Rightarrow> [] | Some k \<Rightarrow> k),
           fst (widget_value (Y1 - 5, Y1) (year_entry w)),
           snd (widget_value (Y1 - 5, Y1) (year_entry w)),
           map (takeWhile (\<lambda>c. c \<noteq> CHR '':'')) (widget_value [e] (series_selection w))))"
  by (simp add: display_api_query_builder_def item0_def resolve_stored_def Let_def
      collect_item0_split[unfolded item0_def])

lemma prepare_series_picklist_eq:
  "prepare_series_picklist md = map picklist_entry (series md)"
  by (simp add: prepare_series_picklist_def picklist_entry_def get_title_def zip_map_map
      zip_same_conv_map Let_def)

lemma takeWhile_entry:
  "CHR '':'' \<notin> set (id_field s) \<Longrightarrow> takeWhile (\<lambda>c. c \<noteq> CHR '':'') (picklist_entry s) = id_field s"
  by (simp add: picklist_entry_def takeWhile_append)

lemma display_output_error_state:
  "\<not> empty log \<Longrightarrow> display_output data log survey today st = (st, [Write_table log])"
  by (simp add: display_output_def)

lemma display_output_success_state:
  "empty log \<Longrightarrow>
   display_output (DataFrame df) log survey today st =
     (if ss_show_balloons st = Some True then st\<lparr>ss_show_balloons := Some False\<rparr> else st,
      (if ss_show_balloons st = Some True then [Balloons] else []) @
      [Success_banner, Write_text [], Heading ''Output:'', Write_obj (DataFrame df),
       Download_button ''Download CSV File'' (to_csv df False)
         (strftime_Ymd today @ '' '' @ survey @ ''.csv'') ''text/csv'',
       Write_text []])"
  by (auto simp: display_output_def Let_def split: option.splits)

lemma display_results_no_frame:
  "(\<And>df. ss_bls_data st \<noteq> Some (DataFrame df)) \<Longrightarrow> display_results secrets today st = (st, [], None)"
  by (auto simp: display_results_def split: option.splits pyobj.splits)

lemma display_results_error_state:
  "ss_bls_data st = Some (DataFrame df) \<Longrightarrow> ss_bls_params st = Some params \<Longrightarrow>
   ss_bls_log st = Some log \<Longrightarrow> \<not> empty log \<Longrightarrow>
   display_results secrets today st =
     (st, Write_table log #
          display_code secrets df (p_seriesids params) (p_startyear params) (p_endyear params)
            (p_registrationkey params) (p_survey_name params), None)"
  by (simp add: display_results_def display_output_error_state)

lemma display_results_success_state:
  "ss_bls_data st = Some (DataFrame df) \<Longrightarrow> ss_bls_params st = Some params \<Longrightarrow>
   ss_bls_log st = Some log \<Longrightarrow> empty log \<Longrightarrow>
   display_results secrets today st =
     (if ss_show_balloons st = Some True then st\<lparr>ss_show_balloons := Some False\<rparr> else st,
      (if ss_show_balloons st = Some True then [Balloons] else []) @
      [Success_banner, Write_text [], Heading ''Output:'', Write_obj (DataFrame df),
       Download_button ''Download CSV File'' (to_csv df False)
         (strftime_Ymd today @ '' '' @ p_survey params @ ''.csv'') ''text/csv'',
       Write_text []] @
      display_code secrets df (p_seriesids params) (p_startyear params) (p_endyear params)
        (p_registrationkey params) (p_survey_name params), None)"
  by (simp add: display_results_def display_output_success_state)

lemma display_output_stored:
  "ss_bls_data (fst (display_output data log survey today st)) = ss_bls_data st"
  "ss_bls_log (fst (display_output data log survey today st)) = ss_bls_log st"
  "ss_bls_params (fst (display_output data log survey today st)) = ss_bls_params st"
  "ss_user_registrationkey (fst (display_output data log survey today st)) = ss_user_registrationkey st"
  by (simp_all add: display_output_def Let_def)

lemma display_results_stored:
  "ss_bls_data (fst (display_results secrets today st)) = ss_bls_data st"
  "ss_bls_log (fst (display_results secrets today st)) = ss_bls_log st"
  "ss_bls_params (fst (display_results secrets today st)) = ss_bls_params st"
  "ss_user_registrationkey (fst (display_results secrets today st)) = ss_user_registrationkey st"
  by (auto simp: display_results_def Let_def display_output_stored split_beta
      split: option.splits pyobj.splits)

lemma main_empty:
  "prepare_series_picklist (in_metadata inp) = [] \<Longrightarrow>
   main secrets inp st =
     (st\<lparr>ss_user_registrationkey := Some (resolve_stored st (in_widgets inp))\<rparr>,
      [Heading ''API Query Builder: Build Your Own Request'',
       Text_input ''Enter Your BLS API Key''
         (case ss_user_registrationkey st of None \<Rightarrow> [] | Some k \<Rightarrow> k),
       Slider ''Select Year Range'' (survey_minimum_year (in_metadata inp))
         (survey_maximum_year (in_metadata inp))
         (survey_maximum_year (in_metadata inp) - 5, survey_maximum_year (in_metadata inp))],
      Some IndexError)"
  by (simp add: main_def builder_empty Let_def)

lemma main_unfold:
  "main secrets inp st =
     (case builder_of secrets inp st of
        (st1, ui, Inl e) \<Rightarrow> (st1, ui, Some e)
      | (st1, ui, Inr q) \<Rightarrow>
          (case handle_submission inp q st1 of
             Inl e \<Rightarrow> (st1, ui, Some e)
           | Inr st2 \<Rightarrow>
               (case display_results secrets (in_today inp) st2 of
                  (st3, out, err) \<Rightarrow> (st3, ui @ out, err))))"
  by (simp add: main_def builder_of_def Let_def)

lemma builder_of_ui: "list_all builder_element (fst (snd (builder_of secrets inp st)))"
  by (cases "prepare_series_picklist (in_metadata inp)")
     (simp_all add: builder_of_def builder_empty builder_nonempty)

lemma builder_of_stored:
  "ss_bls_data (fst (builder_of secrets inp st)) = ss_bls_data st"
  "ss_bls_log (fst (builder_of secrets inp st)) = ss_bls_log st"
  "ss_bls_params (fst (builder_of secrets inp st)) = ss_bls_params st"
  "ss_show_balloons (fst (builder_of secrets inp st)) = ss_show_balloons st"
  by (cases "prepare_series_picklist (in_metadata inp)";
      simp add: builder_of_def builder_empty builder_nonempty)+

lemma builder_element_not:
  "list_all builder_element ui \<Longrightarrow>
   Success_banner \<notin> set ui \<and> Balloons \<notin> set ui \<and> License_notice \<notin> set ui \<and>
   Download_button a b c d \<notin> set ui \<and> Code s \<notin> set ui \<and> Write_table t \<notin> set ui"
  by (auto simp: list_all_iff)

lemma display_code_elements:
  "Success_banner \<notin> set (display_code secrets data ids sy ey key name) \<and>
   Balloons \<notin> set (display_code secrets data ids sy ey key name) \<and>
   Download_button a b c d \<notin> set (display_code secrets data ids sy ey key name) \<and>
   Write_table t \<notin> set (display_code secrets data ids sy ey key name) \<and>
   (License_notice \<in> set (display_code secrets data ids sy ey key name)) = (\<not> empty data) \<and>
   ((\<exists>s. Code s \<in> set (display_code secrets data ids sy ey key name)) = (\<not> empty data))"
  by (auto simp: display_code_def)

lemma main_completed:
  assumes "snd (snd (main secrets inp st)) = None"
  obtains q st2 where
    "snd (snd (builder_of secrets inp st)) = Inr q"
    "handle_submission inp q (fst (builder_of secrets inp st)) = Inr st2"
    "snd (snd (display_results secrets (in_today inp) st2)) = None"
    "fst (main secrets inp st) = fst (display_results secrets (in_today inp) st2)"
    "fst (snd (main secrets inp st)) =
       fst (snd (builder_of secrets inp st)) @
       fst (snd (display_results secrets (in_today inp) st2))"
proof -
  obtain st1 ui r where B: "builder_of secrets inp st = (st1, ui, r)"
    by (cases "builder_of secrets inp st") auto
  from assms B obtain q where r: "r = Inr q"
    by (cases r) (auto simp: main_unfold)
  from assms B r obtain st2 where H: "handle_submission inp q st1 = Inr st2"
    by (cases "handle_submission inp q st1") (auto simp: main_unfold)
  obtain st3 out err where D: "display_results secrets (in_today inp) st2 = (st3, out, err)"
    by (cases "display_results secrets (in_today inp) st2") auto
  from assms B r H D have "err = None" by (simp add: main_unfold)
  with B r H D that show thesis by (simp add: main_unfold)
qed

lemma display_results_stored_result:
  "stored_result (fst (display_results secrets today st)) = stored_result st"
  by (simp add: stored_result_def display_results_stored)

lemma main_stored:
  "stored_result (fst (main secrets inp st)) =
     (case submission secrets inp st of
        None \<Rightarrow> stored_result st
      | Some (d, l, p) \<Rightarrow> (Some d, Some l, Some p))"
proof -
  obtain st1 ui r where B: "builder_of secrets inp st = (st1, ui, r)"
    by (cases "builder_of secrets inp st") auto
  then have st1: "stored_result st1 = stored_result st"
    using builder_of_stored [of secrets inp st] by (simp add: stored_result_def)
  show ?thesis
  proof (cases r)
    case (Inl e)
    with B st1 show ?thesis by (simp add: main_unfold submission_def)
  next
    case (Inr q)
    obtain submitted key sy ey ids where q: "q = (submitted, key, sy, ey, ids)"
      by (cases q) auto
    show ?thesis
    proof (cases "submitted")
      case False
      with B Inr q st1 show ?thesis
        by (simp add: main_unfold submission_def handle_submission_def split_beta
            display_results_stored_result)
    next
      case True
      show ?thesis
      proof (cases "in_get_bls_data inp ids sy ey key")
        case (Inl e)
        with B Inr q st1 True show ?thesis
          by (simp add: main_unfold submission_def handle_submission_def)
      next
        case r2: (Inr dl)
        obtain d l where dl: "dl = (d, l)" by (cases dl) auto
        with B Inr q True r2 show ?thesis
          by (simp add: main_unfold submission_def handle_submission_def split_beta
              display_results_stored_result) (simp add: stored_result_def)
      qed
    qed
  qed
qed

lemma run_stored:
  "stored_result (run secrets inps st) =
     (case last_submission secrets inps st of
        None \<Rightarrow> stored_result st
      | Some (d, l, p) \<Rightarrow> (Some d, Some l, Some p))"
proof (induction inps arbitrary: st)
  case Nil
  show ?case by simp
next
  case (Cons inp inps)
  show ?case
    by (simp add: Cons.IH main_stored split: option.splits)
qed

lemma submission_sound:
  assumes "submission secrets inp st = Some (d, l, p)"
  shows "get_data_pressed (in_widgets inp) \<and>
         in_get_bls_data inp (p_seriesids p) (p_startyear p) (p_endyear p) (p_registrationkey p) =
           Inr (d, l) \<and>
         p_survey_name p = in_survey_name inp \<and> p_survey p = in_survey inp"
proof (cases "prepare_series_picklist (in_metadata inp)")
  case Nil
  with assms show ?thesis by (simp add: submission_def builder_of_def builder_empty)
next
  case (Cons e es)
  with assms show ?thesis
    by (auto simp: submission_def builder_of_def builder_nonempty split: if_splits sum.splits)
qed

lemma last_submission_sound:
  "last_submission secrets inps st = Some (d, l, p) \<Longrightarrow>
   \<exists>inp \<in> set inps. get_data_pressed (in_widgets inp) \<and>
         in_get_bls_data inp (p_seriesids p) (p_startyear p) (p_endyear p) (p_registrationkey p) =
           Inr (d, l) \<and>
         p_survey_name p = in_survey_name inp \<and> p_survey p = in_survey inp"
proof (induction inps arbitrary: st)
  case Nil
  then show ?case by simp
next
  case (Cons inp inps)
  show ?case
  proof (cases "last_submission secrets inps (fst (main secrets inp st))")
    case None
    with Cons.prems have "submission secrets inp st = Some (d, l, p)" by simp
    from submission_sound [OF this] show ?thesis by simp
  next
    case (Some r)
    with Cons.prems have "last_submission secrets inps (fst (main secrets inp st)) = Some (d, l, p)"
      by simp
    from Cons.IH [OF this] show ?thesis by auto
  qed
qed

lemma display_results_idle:
  "ss_show_balloons st \<noteq> Some True \<Longrightarrow>
   Balloons \<notin> set (fst (snd (display_results secrets today st))) \<and>
   ss_show_balloons (fst (display_results secrets today st)) = ss_show_balloons st"
  by (auto simp: display_results_def display_output_def display_code_def Let_def
      split: option.splits pyobj.splits)

lemma main_idle:
  assumes "\<not> get_data_pressed (in_widgets inp)" and "ss_show_balloons st \<noteq> Some True"
  shows "Balloons \<notin> set (fst (snd (main secrets inp st))) \<and>
         ss_show_balloons (fst (main secrets inp st)) = ss_show_balloons st"
proof (cases "prepare_series_picklist (in_metadata inp)")
  case Nil
  then show ?thesis by (simp add: main_empty)
next
  case (Cons e es)
  let ?st1 = "st\<lparr>ss_user_registrationkey := Some (resolve_stored st (in_widgets inp))\<rparr>"
  from assms(2) have "ss_show_balloons ?st1 \<noteq> Some True" by simp
  note D = display_results_idle [OF this, of secrets "in_today inp"]
  from Cons assms(1) D show ?thesis
    by (simp add: main_unfold builder_of_def builder_nonempty handle_submission_def split_beta)
qed

lemma run_idle:
  "list_all (\<lambda>i. \<not> get_data_pressed (in_widgets i)) inps \<Longrightarrow>
   ss_show_balloons st \<noteq> Some True \<Longrightarrow>
   ss_show_balloons (run secrets inps st) = ss_show_balloons st"
proof (induction inps arbitrary: st)
  case Nil
  show ?case by simp
next
  case (Cons inp inps)
  from Cons.prems have i: "\<not> get_data_pressed (in_widgets inp)"
    and r: "list_all (\<lambda>i. \<not> get_data_pressed (in_widgets i)) inps" by simp_all
  note M = main_idle [OF i Cons.prems(2), of secrets]
  with Cons.prems(2) have "ss_show_balloons (fst (main secrets inp st)) \<noteq> Some True" by simp
  from Cons.IH [OF r this] M show ?case by simp
qed

lemma builder_of_pressed:
  "snd (snd (builder_of secrets inp st)) = Inr q \<Longrightarrow> fst q = get_data_pressed (in_widgets inp)"
  by (cases "prepare_series_picklist (in_metadata inp)")
     (auto simp: builder_of_def builder_empty builder_nonempty)

lemma handle_submission_pressed:
  "handle_submission inp q st = Inr st2 \<Longrightarrow> fst q \<Longrightarrow>
   ss_show_balloons st2 = Some True \<and> (\<exists>p. ss_bls_params st2 = Some p)"
  by (auto simp: handle_submission_def split: prod.splits sum.splits)

lemma display_code_no_balloons:
  "count_list (display_code secrets data ids sy ey key name) Balloons = 0"
  by (simp add: display_code_def)

lemma example_picklist:
  "prepare_series_picklist example_metadata =
     [''SID123: '', ''LNS14000000: Unemployment Rate'', ''CES0000000001: Total Nonfarm: all'']"
  "survey_minimum_year example_metadata = 1990"
  "survey_maximum_year example_metadata = 2024"
  by (simp_all add: prepare_series_picklist_eq example_metadata_def
      picklist_entry_def untitled_def lns_def ces_def)

lemma digits_3: "digits (Suc (Suc (Suc 0))) = ''3''"
  by code_simp

lemma example_date: "strftime_Ymd \<lparr>year = 2025, month = 6, day = 1\<rparr> = ''2025-06-01''"
  by code_simp

lemma example_csv:
  "to_csv example_frame False =
     ''series_id,year,value'' @ [CHR 0x0A] @ ''LNS14000000,2024,4.1'' @ [CHR 0x0A]"
  by code_simp

lemma example_frames: "\<not> empty example_frame" "\<not> empty example_log" "empty DataFrame0"
  by (simp_all add: empty_def example_frame_def example_log_def DataFrame0_def)

lemmas example_simps =
  main_unfold builder_of_def example_picklist builder_nonempty handle_submission_def
  resolve_stored_def widget_value_def strip_def str_or_def demo_secrets_def
  session_state0_def pressing_def no_input_def

lemma success_run:
  "fst (main demo_secrets success_page session_state0) = after_success"
  "snd (snd (main demo_secrets success_page session_state0)) = None"
  by (simp_all add: success_page_def example_simps example_page_def split_beta after_success_def
      display_results_def display_output_def example_frames first_params_def Let_def)

lemma idle_run:
  "fst (main demo_secrets idle_page after_success) = after_success"
  by (simp add: idle_page_def after_success_def main_unfold builder_of_def example_picklist
      builder_nonempty handle_submission_def resolve_stored_def widget_value_def strip_def
      str_or_def demo_secrets_def no_input_def example_page_def split_beta
      display_results_def display_output_def example_frames first_params_def Let_def)

lemma failure_run:
  "fst (main demo_secrets failure_page session_state0) = after_failure"
  "fst (main demo_secrets failure_page after_success) = after_failure"
  "snd (snd (main demo_secrets failure_page session_state0)) = None"
  "fst (snd (main demo_secrets failure_page session_state0)) =
     [Heading ''API Query Builder: Build Your Own Request'',
      Text_input ''Enter Your BLS API Key'' [],
      Slider ''Select Year Range'' 1990 2024 (2019, 2024),
      Multiselect ''Select 1 or more series (3 available)''
        [''SID123: '', ''LNS14000000: Unemployment Rate'', ''CES0000000001: Total Nonfarm: all'']
        [''SID123: ''],
      Form_submit_button ''Get Data'',
      Write_table example_log,
      Heading ''Python Code:'',
      Tabs [''Data'', ''Metadata'', ''License''],
      Code (data_script [''SID123''] 2019 2024 ''your_api_key''),
      Code (metadata_script ''Consumer Expenditure Survey'' ''your_api_key''),
      License_notice]"
  by (simp_all add: failure_page_def example_simps example_page_def split_beta after_failure_def
      after_success_def
      display_results_def display_output_def example_frames first_params_def Let_def
      display_code_def api_key_to_show_def digits_3)

lemma unframed_failure_run:
  "snd (snd (main demo_secrets unframed_failure_page session_state0)) = None"
  "ss_bls_data (fst (main demo_secrets unframed_failure_page session_state0)) = Some NotDataFrame"
  "ss_bls_log (fst (main demo_secrets unframed_failure_page session_state0)) = Some example_log"
  "fst (snd (main demo_secrets unframed_failure_page session_state0)) = builder_page"
  by (simp_all add: unframed_failure_page_def example_simps example_page_def split_beta
      display_results_def digits_3 builder_page_def)

lemma unframed_run:
  "snd (snd (main demo_secrets unframed_page session_state0)) = None"
  "ss_bls_data (fst (main demo_secrets unframed_page session_state0)) = Some NotDataFrame"
  "ss_bls_log (fst (main demo_secrets unframed_page session_state0)) = Some DataFrame0"
  "ss_show_balloons (fst (main demo_secrets unframed_page session_state0)) = Some True"
  "fst (snd (main demo_secrets unframed_page session_state0)) = builder_page"
  by (simp_all add: unframed_page_def example_simps example_page_def split_beta
      display_results_def digits_3 builder_page_def)

lemma unframed_idle_run:
  "fst (snd (main demo_secrets idle_page
     (fst (main demo_secrets unframed_page session_state0)))) = builder_page"
  by (simp add: unframed_page_def idle_page_def example_simps example_page_def split_beta
      display_results_def digits_3 builder_page_def)

lemma main_idle_unframed:
  assumes "\<not> get_data_pressed (in_widgets inp)"
    and "\<And>df. ss_bls_data st \<noteq> Some (DataFrame df)"
  shows "Balloons \<notin> set (fst (snd (main secrets inp st))) \<and>
         ss_bls_data (fst (main secrets inp st)) = ss_bls_data st"
proof (cases "prepare_series_picklist (in_metadata inp)")
  case Nil
  then show ?thesis by (simp add: main_empty)
next
  case (Cons e es)
  let ?st1 = "st\<lparr>ss_user_registrationkey := Some (resolve_stored st (in_widgets inp))\<rparr>"
  from assms(2) have "\<And>df. ss_bls_data ?st1 \<noteq> Some (DataFrame df)" by simp
  note D = display_results_no_frame [OF this, of secrets "in_today inp"]
  from Cons assms(1) D show ?thesis
    by (simp add: main_unfold builder_of_def builder_nonempty handle_submission_def)
qed

lemma main_idle_quiet:
  assumes "\<not> get_data_pressed (in_widgets inp)"
    and "ss_show_balloons st \<noteq> Some True \<or> (\<forall>df. ss_bls_data st \<noteq> Some (DataFrame df))"
  shows "Balloons \<notin> set (fst (snd (main secrets inp st))) \<and>
         (ss_show_balloons (fst (main secrets inp st)) \<noteq> Some True \<or>
          (\<forall>df. ss_bls_data (fst (main secrets inp st)) \<noteq> Some (DataFrame df)))"
proof (cases "ss_show_balloons st \<noteq> Some True")
  case True
  from main_idle [OF assms(1) True, of secrets] True show ?thesis by simp
next
  case False
  with assms(2) have "\<And>df. ss_bls_data st \<noteq> Some (DataFrame df)" by blast
  from main_idle_unframed [OF assms(1) this, of secrets] this show ?thesis by simp
qed

lemma run_idle_quiet:
  "list_all (\<lambda>i. \<not> get_data_pressed (in_widgets i)) inps \<Longrightarrow>
   ss_show_balloons st \<noteq> Some True \<or> (\<forall>df. ss_bls_data st \<noteq> Some (DataFrame df)) \<Longrightarrow>
   ss_show_balloons (run secrets inps st) \<noteq> Some True \<or>
   (\<forall>df. ss_bls_data (run secrets inps st) \<noteq> Some (DataFrame df))"
proof (induction inps arbitrary: st)
  case Nil
  then show ?case by simp
next
  case (Cons inp inps)
  from Cons.prems(1) have i: "\<not> get_data_pressed (in_widgets inp)"
    and r: "list_all (\<lambda>i. \<not> get_data_pressed (in_widgets i)) inps" by simp_all
  from main_idle_quiet [OF i Cons.prems(2), of secrets]
  have "ss_show_balloons (fst (main secrets inp st)) \<noteq> Some True \<or>
        (\<forall>df. ss_bls_data (fst (main secrets inp st)) \<noteq> Some (DataFrame df))" by simp
  from Cons.IH [OF r this] show ?case by simp
qed

lemma decimal_chars: "map (\<lambda>n. char_of (48 + n)) [0..<10] = ''0123456789''"
  by code_simp

lemma char_of_digit: "n < 10 \<Longrightarrow> char_of (48 + n) = ''0123456789'' ! n"
proof -
  assume "n < 10"
  then have "map (\<lambda>n. char_of (48 + n)) [0..<10] ! n = char_of (48 + n)"
    by (simp del: upt_Suc)
  then show ?thesis by (simp only: decimal_chars)
qed

lemma digits_1: "n < 10 \<Longrightarrow> digits n = [''0123456789'' ! n]"
  by (subst digits.simps) (simp add: char_of_digit)

lemma digits_2:
  "10 \<le> n \<Longrightarrow> n < 100 \<Longrightarrow> digits n = [''0123456789'' ! (n div 10), ''0123456789'' ! (n mod 10)]"
  by (subst digits.simps) (simp add: digits_1 char_of_digit)

lemma digits_3d:
  "100 \<le> n \<Longrightarrow> n < 1000 \<Longrightarrow>
   digits n = [''0123456789'' ! (n div 100), ''0123456789'' ! (n div 10 mod 10),
               ''0123456789'' ! (n mod 10)]"
  by (subst digits.simps) (simp add: digits_2 char_of_digit div_mult2_eq [symmetric])

lemma digits_4:
  "1000 \<le> n \<Longrightarrow> n < 10000 \<Longrightarrow>
   digits n = [''0123456789'' ! (n div 1000), ''0123456789'' ! (n div 100 mod 10),
               ''0123456789'' ! (n div 10 mod 10), ''0123456789'' ! (n mod 10)]"
  by (subst digits.simps) (simp add: digits_3d char_of_digit div_mult2_eq [symmetric])

lemma zfill_2:
  "n < 100 \<Longrightarrow>
   zfill 2 (digits n) = [''0123456789'' ! (n div 10), ''0123456789'' ! (n mod 10)]"
  by (cases "n < 10") (simp_all add: zfill_def digits_1 digits_2)

lemma strftime_Ymd_digits:
  assumes "1000 \<le> year d" "year d \<le> 9999" "month d \<le> 12" "day d \<le> 31"
  shows "strftime_Ymd d =
     [''0123456789'' ! (year d div 1000), ''0123456789'' ! (year d div 100 mod 10),
      ''0123456789'' ! (year d div 10 mod 10), ''0123456789'' ! (year d mod 10), CHR ''-'',
      ''0123456789'' ! (month d div 10), ''0123456789'' ! (month d mod 10), CHR ''-'',
      ''0123456789'' ! (day d div 10), ''0123456789'' ! (day d mod 10)]"
  using assms by (simp add: strftime_Ymd_def digits_4 zfill_2) (simp add: zfill_def)

lemma plain_field: "plain s \<Longrightarrow> csv_field s = s"
  by (simp add: plain_def csv_field_def)

lemma plain_free: "plain s \<Longrightarrow> CHR '','' \<notin> set s \<and> CHR 0x0A \<notin> set s"
  by (auto simp: plain_def list_ex_iff)

lemma split_free: "sep \<notin> set a \<Longrightarrow> split sep a = [a]"
  by (induction a) auto

lemma split_append: "sep \<notin> set a \<Longrightarrow> split sep (a @ sep # rest) = a # split sep rest"
  by (induction a) auto

lemma split_join:
  "cells \<noteq> [] \<Longrightarrow> list_all (\<lambda>s. sep \<notin> set s) cells \<Longrightarrow> split sep (join [sep] cells) = cells"
proof (induction "[sep]" cells rule: join.induct)
  case 1
  then show ?case by simp
next
  case (2 x)
  then show ?case by (simp add: split_free)
next
  case (3 x y ys)
  then show ?case by (simp add: split_append)
qed

lemma join_free:
  "c \<notin> set sep \<Longrightarrow> list_all (\<lambda>s. c \<notin> set s) cells \<Longrightarrow> c \<notin> set (join sep cells)"
  by (induction sep cells rule: join.induct) auto

lemma csv_line_plain: "plain_row cells \<Longrightarrow> csv_line cells = join '','' cells @ [CHR 0x0A]"
proof -
  assume p: "plain_row cells"
  then have "map csv_field cells = cells"
    by (auto simp: plain_row_def list_all_iff plain_field intro: map_idI)
  with p show ?thesis by (simp add: csv_line_def plain_row_def)
qed

lemma split_lines:
  "list_all (\<lambda>l. sep \<notin> set l) ls \<Longrightarrow>
   split sep (concat (map (\<lambda>l. l @ [sep]) ls)) = ls @ ([] # [])"
  by (induction ls) (simp_all add: split_append)

lemma plain_row_line:
  "plain_row cells \<Longrightarrow> CHR 0x0A \<notin> set (join '','' cells) \<and>
     split (CHR '','') (join '','' cells) = cells"
proof -
  assume p: "plain_row cells"
  then have a: "list_all (\<lambda>s. CHR 0x0A \<notin> set s) cells"
    and b: "list_all (\<lambda>s. CHR '','' \<notin> set s) cells" and c: "cells \<noteq> []"
    by (auto simp: plain_row_def list_all_iff plain_free)
  from join_free [OF _ a, of "'',''"] split_join [OF c b] show ?thesis by simp
qed

lemma to_csv_read_back:
  assumes "plain_row (df_columns df)" and "list_all plain_row (df_rows df)"
  shows "map (split (CHR '','')) (butlast (split (CHR 0x0A) (to_csv df False))) =
         df_columns df # df_rows df"
proof -
  let ?rows = "df_columns df # df_rows df"
  from assms have all: "list_all plain_row ?rows" by simp
  then have m: "map csv_line ?rows = map (\<lambda>r. join '','' r @ [CHR 0x0A]) ?rows"
    by (intro map_cong refl) (auto simp: list_all_iff csv_line_plain)
  have c: "to_csv df False = concat (map csv_line ?rows)"
    by (simp add: to_csv_def)
  have csv: "to_csv df False = concat (map (\<lambda>l. l @ [CHR 0x0A]) (map (join '','') ?rows))"
    unfolding c m by (simp only: map_map comp_def)
  from all have "list_all (\<lambda>l. CHR 0x0A \<notin> set l) (map (join '','') ?rows)"
    by (auto simp: list_all_iff plain_row_line)
  from split_lines [OF this] csv
  have "butlast (split (CHR 0x0A) (to_csv df False)) = map (join '','') ?rows"
    by (simp add: butlast_append)
  moreover from all have "map (split (CHR '','')) (map (join '','') ?rows) = ?rows"
    by (auto simp: list_all_iff plain_row_line intro: map_idI)
  ultimately show ?thesis by simp
qed

subsection \<open>The default year range\<close>

text \<open>
  Claim C4. For a survey whose year bounds \<open>Y0\<close> and \<open>Y1\<close> satisfy \<open>Y1 - Y0 \<ge> 5\<close>, the
  query builder's default year range is exactly \<open>(Y1 - 5, Y1)\<close>: it is the default value
  handed to the slider, it is what the builder returns as start and end year when the user
  has not moved the slider, and it lies within the bounds.
\<close>

theorem default_year_range_wide:
  assumes "Y1 - Y0 \<ge> 5" and "year_entry w = None"
    and "snd (snd (display_api_query_builder secrets pl Y0 Y1 w st)) =
           Inr (submitted, key, startyear, endyear, ids)"
  shows "(startyear, endyear) = (Y1 - 5, Y1) \<and>
         Slider ''Select Year Range'' Y0 Y1 (Y1 - 5, Y1) \<in>
           set (fst (snd (display_api_query_builder secrets pl Y0 Y1 w st))) \<and>
         Y0 \<le> startyear \<and> startyear \<le> endyear \<and> endyear \<le> Y1"
proof (cases pl)
  case Nil
  with assms(3) show ?thesis by (simp add: builder_empty)
next
  case (Cons e es)
  with assms show ?thesis by (auto simp: builder_nonempty widget_value_def)
qed

theorem default_year_range_wide_witness:
  "(5::int) \<le> 2024 - 1990 \<and> year_entry no_input = None \<and>
   snd (snd (display_api_query_builder demo_secrets [''CEU0000000001: All employees''] 1990 2024
     no_input session_state0)) =
     Inr (False, ''DEMOKEY'', 2019, 2024, [''CEU0000000001'']) \<and>
   Slider ''Select Year Range'' 1990 2024 (2019, 2024) \<in>
     set (fst (snd (display_api_query_builder demo_secrets [''CEU0000000001: All employees'']
       1990 2024 no_input session_state0)))"
proof -
  have ev: "snd (snd (display_api_query_builder demo_secrets [''CEU0000000001: All employees'']
      1990 2024 no_input session_state0)) =
     Inr (False, ''DEMOKEY'', 2019, 2024, [''CEU0000000001''])"
    by (simp add: builder_nonempty no_input_def demo_secrets_def session_state0_def
        resolve_stored_def widget_value_def strip_def str_or_def)
  have h1: "(5::int) \<le> 2024 - 1990" by simp
  have h2: "year_entry no_input = None" by (simp add: no_input_def)
  from default_year_range_wide [OF h1 h2 ev] ev h1 h2 show ?thesis by simp
qed

text \<open>
  Claim C2 says that for \<open>Y1 - Y0 < 5\<close> the default is clamped to \<open>(Y0, Y1)\<close>. The
  builder has no clamping: for the bounds 2022 and 2024 the default is \<open>(2019, 2024)\<close>.
\<close>

theorem default_year_range_narrow_counterexample:
  "(2024::int) - 2022 < 5 \<and>
   snd (snd (display_api_query_builder demo_secrets [''S1: T''] 2022 2024 no_input session_state0)) =
     Inr (False, ''DEMOKEY'', 2019, 2024, [''S1'']) \<and>
   (2019::int, 2024::int) \<noteq> (2022, 2024)"
  by (simp add: builder_nonempty no_input_def demo_secrets_def session_state0_def
        resolve_stored_def widget_value_def strip_def str_or_def)

text \<open>
  Claim C2, amended. For a survey with \<open>Y1 - Y0 < 5\<close> the default year range of the query
  builder is still \<open>(Y1 - 5, Y1)\<close>, whose start year lies below the minimum year \<open>Y0\<close>; the
  builder does not clamp it.
\<close>

theorem default_year_range_narrow:
  assumes "Y1 - Y0 < 5" and "year_entry w = None"
    and "snd (snd (display_api_query_builder secrets pl Y0 Y1 w st)) =
           Inr (submitted, key, startyear, endyear, ids)"
  shows "(startyear, endyear) = (Y1 - 5, Y1) \<and>
         Slider ''Select Year Range'' Y0 Y1 (Y1 - 5, Y1) \<in>
           set (fst (snd (display_api_query_builder secrets pl Y0 Y1 w st))) \<and>
         startyear < Y0"
proof (cases pl)
  case Nil
  with assms(3) show ?thesis by (simp add: builder_empty)
next
  case (Cons e es)
  with assms show ?thesis by (auto simp: builder_nonempty widget_value_def)
qed

theorem default_year_range_narrow_witness:
  "(2024::int) - 2022 < 5 \<and> year_entry no_input = None \<and>
   snd (snd (display_api_query_builder demo_secrets [''S1: T''] 2022 2024 no_input session_state0)) =
     Inr (False, ''DEMOKEY'', 2019, 2024, [''S1'']) \<and>
   Slider ''Select Year Range'' 2022 2024 (2019, 2024) \<in>
     set (fst (snd (display_api_query_builder demo_secrets [''S1: T''] 2022 2024 no_input
       session_state0))) \<and>
   (2019::int) < 2022"
proof -
  have ev: "snd (snd (display_api_query_builder demo_secrets [''S1: T''] 2022 2024 no_input
      session_state0)) = Inr (False, ''DEMOKEY'', 2019, 2024, [''S1''])"
    by (simp add: builder_nonempty no_input_def demo_secrets_def session_state0_def
        resolve_stored_def widget_value_def strip_def str_or_def)
  have h1: "(2024::int) - 2022 < 5" by simp
  have h2: "year_entry no_input = None" by (simp add: no_input_def)
  from default_year_range_narrow [OF h1 h2 ev] ev h1 h2 show ?thesis by simp
qed

subsection \<open>The API key\<close>

text \<open>
  Claim C3 says that an empty or white-space entry always resolves to the demo key, also
  after a different key has been entered before. After the key \<open>MYKEY\<close> has been entered in
  one run, an entry of two blanks in the next run resolves to \<open>MYKEY\<close>, not to the demo key.
\<close>

theorem api_key_empty_entry_counterexample:
  "strip ''  '' = [] \<and>
   snd (snd (display_api_query_builder demo_secrets [''S1: T''] 1990 2024 (typed ''  '')
     (fst (display_api_query_builder demo_secrets [''S1: T''] 1990 2024 (typed ''MYKEY'')
        session_state0)))) =
     Inr (False, ''MYKEY'', 2019, 2024, [''S1'']) \<and>
   ''MYKEY'' \<noteq> ''DEMOKEY''"
  by (simp add: builder_nonempty typed_def demo_secrets_def session_state0_def
        resolve_stored_def widget_value_def strip_def str_or_def isspace_def)

text \<open>
  Claim C3, amended. With \<open>entry\<close> the text of the API-key field in this run: an empty or
  white-space entry resolves to the key stored in the session state by an earlier run when
  there is a non-empty one, and to the demo key otherwise; a non-empty entry, stripped,
  always is the resolved key (whatever key was stored before) and is stored in the session
  state.
\<close>

theorem api_key_precedence:
  assumes "snd (snd (display_api_query_builder secrets pl Y0 Y1 w st)) =
           Inr (submitted, key, startyear, endyear, ids)"
    and "stored = (case ss_user_registrationkey st of None \<Rightarrow> [] | Some k \<Rightarrow> k)"
    and "entry = widget_value stored (key_entry w)"
    and "demo = (case secrets ''bls_api_key'' of None \<Rightarrow> [] | Some k \<Rightarrow> k)"
  shows "(strip entry = [] \<longrightarrow> key = (if stored \<noteq> [] then stored else demo)) \<and>
         (strip entry \<noteq> [] \<longrightarrow> key = strip entry \<and>
            ss_user_registrationkey (fst (display_api_query_builder secrets pl Y0 Y1 w st)) =
              Some (strip entry))"
proof (cases pl)
  case Nil
  with assms(1) show ?thesis by (simp add: builder_empty)
next
  case (Cons e es)
  with assms show ?thesis by (auto simp: builder_nonempty resolve_stored_def str_or_def Let_def)
qed

theorem api_key_precedence_witness:
  "snd (snd (display_api_query_builder demo_secrets [''S1: T''] 1990 2024 (typed '' '') session_state0)) =
     Inr (False, ''DEMOKEY'', 2019, 2024, [''S1'']) \<and>
   strip '' '' = [] \<and>
   snd (snd (display_api_query_builder demo_secrets [''S1: T''] 1990 2024 (typed '' K2 '')
     (session_state0\<lparr>ss_user_registrationkey := Some ''K1''\<rparr>))) =
     Inr (False, ''K2'', 2019, 2024, [''S1'']) \<and>
   strip '' K2 '' = ''K2'' \<and>
   ss_user_registrationkey (fst (display_api_query_builder demo_secrets [''S1: T''] 1990 2024
     (typed '' K2 '') (session_state0\<lparr>ss_user_registrationkey := Some ''K1''\<rparr>))) = Some ''K2''"
proof -
  have e1: "snd (snd (display_api_query_builder demo_secrets [''S1: T''] 1990 2024 (typed '' '')
      session_state0)) = Inr (False, ''DEMOKEY'', 2019, 2024, [''S1''])"
    by (simp add: builder_nonempty typed_def demo_secrets_def session_state0_def
        resolve_stored_def widget_value_def strip_def str_or_def isspace_def)
  have e2: "snd (snd (display_api_query_builder demo_secrets [''S1: T''] 1990 2024 (typed '' K2 '')
      (session_state0\<lparr>ss_user_registrationkey := Some ''K1''\<rparr>))) =
      Inr (False, ''K2'', 2019, 2024, [''S1''])"
    by (simp add: builder_nonempty typed_def demo_secrets_def session_state0_def
        resolve_stored_def widget_value_def strip_def str_or_def isspace_def)
  have s1: "strip '' '' = []" and s2: "strip '' K2 '' = ''K2''"
    by (simp_all add: strip_def isspace_def)
  note a = api_key_precedence [OF e1 refl refl refl]
  note b = api_key_precedence [OF e2 refl refl refl]
  from a b e1 e2 s1 s2 show ?thesis
    by (simp add: typed_def session_state0_def widget_value_def)
qed

subsection \<open>Picklist entries and series ids\<close>

text \<open>
  Claim C5. The picklist is the list of the entries \<open>"{id}: {title}"\<close> of the series, the
  title empty when absent. For every selection, in its order, the series ids the builder
  returns are the texts before the first colon of the selected entries; so when the
  selection is made of the entries of series whose ids hold no colon, the builder returns
  exactly these ids, whatever colons the titles hold.
\<close>

theorem series_ids_of_selection:
  fixes chosen :: "series_entry list"
  assumes "series_selection w = Some selection"
    and "snd (snd (display_api_query_builder secrets (prepare_series_picklist md) Y0 Y1 w st)) =
           Inr (submitted, key, startyear, endyear, ids)"
  shows "prepare_series_picklist md = map picklist_entry (series md) \<and>
         ids = map (takeWhile (\<lambda>c. c \<noteq> CHR '':'')) selection \<and>
         ((\<forall>s \<in> set chosen. CHR '':'' \<notin> set (id_field s)) \<and>
            selection = map picklist_entry chosen
          \<longrightarrow> ids = map id_field chosen)"
proof -
  have fmt: "prepare_series_picklist md = map picklist_entry (series md)"
    by (rule prepare_series_picklist_eq)
  have ids: "ids = map (takeWhile (\<lambda>c. c \<noteq> CHR '':'')) selection"
  proof (cases "prepare_series_picklist md")
    case Nil
    with assms(2) show ?thesis by (simp add: builder_empty)
  next
    case (Cons e es)
    with assms show ?thesis by (simp add: builder_nonempty widget_value_def)
  qed
  have rt: "ids = map id_field chosen"
    if "\<forall>s \<in> set chosen. CHR '':'' \<notin> set (id_field s)"
      and "selection = map picklist_entry chosen"
    using that ids by (simp add: takeWhile_entry)
  from fmt ids rt show ?thesis by blast
qed

theorem series_ids_of_selection_witness:
  "prepare_series_picklist example_metadata =
     [''SID123: '', ''LNS14000000: Unemployment Rate'', ''CES0000000001: Total Nonfarm: all''] \<and>
   CHR '':'' \<notin> set (id_field lns) \<and> CHR '':'' \<notin> set (id_field ces) \<and>
   snd (snd (display_api_query_builder demo_secrets (prepare_series_picklist example_metadata)
     1990 2024
     (selecting [''LNS14000000: Unemployment Rate'', ''CES0000000001: Total Nonfarm: all''])
     session_state0)) =
   Inr (True, ''DEMOKEY'', 2019, 2024, [''LNS14000000'', ''CES0000000001''])"
proof -
  have pl: "prepare_series_picklist example_metadata =
     [''SID123: '', ''LNS14000000: Unemployment Rate'', ''CES0000000001: Total Nonfarm: all'']"
    by (simp add: prepare_series_picklist_def example_metadata_def get_title_def lns_def ces_def
        untitled_def)
  have sel: "series_selection
      (selecting [''LNS14000000: Unemployment Rate'', ''CES0000000001: Total Nonfarm: all'']) =
      Some (map picklist_entry [lns, ces])"
    by (simp add: selecting_def picklist_entry_def lns_def ces_def)
  have ev: "snd (snd (display_api_query_builder demo_secrets
     (prepare_series_picklist example_metadata) 1990 2024
     (selecting [''LNS14000000: Unemployment Rate'', ''CES0000000001: Total Nonfarm: all''])
     session_state0)) =
     Inr (True, ''DEMOKEY'', 2019, 2024,
       map (takeWhile (\<lambda>c. c \<noteq> CHR '':''))
         [''LNS14000000: Unemployment Rate'', ''CES0000000001: Total Nonfarm: all''])"
    unfolding pl
    by (simp add: builder_nonempty selecting_def demo_secrets_def session_state0_def
        resolve_stored_def widget_value_def strip_def str_or_def)
  have nc: "\<forall>s \<in> set [lns, ces]. CHR '':'' \<notin> set (id_field s)"
    by (simp add: lns_def ces_def)
  from series_ids_of_selection [OF sel ev, of "[lns, ces]"] nc pl ev show ?thesis
    by (simp add: lns_def ces_def)
qed

subsection \<open>The precondition of the query builder\<close>

text \<open>
  Claim C10. The query builder needs a non-empty series list. When the series list is
  non-empty, the first picklist entry exists, it is the default of the multi-select, and
  the builder returns a request. When the series list is empty, \<open>series_picklist[0]\<close> has
  no value (IndexError), the builder raises, and the run of the page ends with this error.
\<close>

theorem first_entry_needs_series:
  "(series md \<noteq> [] \<longrightarrow>
      item0 (prepare_series_picklist md) = Inr (picklist_entry (hd (series md))) \<and>
      Multiselect
        (''Select 1 or more series ('' @ digits (length (series md)) @ '' available)'')
        (prepare_series_picklist md) [picklist_entry (hd (series md))]
        \<in> set (fst (snd (display_api_query_builder secrets (prepare_series_picklist md) Y0 Y1 w st))) \<and>
      (\<exists>q. snd (snd (display_api_query_builder secrets (prepare_series_picklist md) Y0 Y1 w st)) =
         Inr q)) \<and>
   (series md = [] \<longrightarrow>
      item0 (prepare_series_picklist md) = Inl IndexError \<and>
      snd (snd (display_api_query_builder secrets (prepare_series_picklist md) Y0 Y1 w st)) =
        Inl IndexError \<and>
      (in_metadata inp = md \<longrightarrow> snd (snd (main secrets inp st)) = Some IndexError))"
proof (cases "series md")
  case Nil
  then have "prepare_series_picklist md = []"
    by (simp add: prepare_series_picklist_eq)
  with Nil show ?thesis
    by (simp add: item0_def builder_empty main_empty)
next
  case (Cons s ss)
  then have "prepare_series_picklist md = picklist_entry s # map picklist_entry ss"
    by (simp add: prepare_series_picklist_eq)
  with Cons show ?thesis
    by (simp add: item0_def builder_nonempty)
qed

theorem first_entry_needs_series_witness:
  "series example_metadata \<noteq> [] \<and>
   item0 (prepare_series_picklist example_metadata) = Inr ''SID123: '' \<and>
   snd (snd (display_api_query_builder demo_secrets (prepare_series_picklist example_metadata)
     1990 2024 no_input session_state0)) = Inr (False, ''DEMOKEY'', 2019, 2024, [''SID123'']) \<and>
   series no_series = [] \<and>
   item0 (prepare_series_picklist no_series) = Inl IndexError \<and>
   snd (snd (main demo_secrets
     \<lparr>in_survey = ''CE'', in_survey_name = ''Consumer Expenditure Survey'',
      in_metadata = no_series, in_widgets = no_input,
      in_get_bls_data = (\<lambda>ids sy ey k. Inr (DataFrame example_frame, DataFrame0)),
      in_today = \<lparr>year = 2025, month = 6, day = 1\<rparr>\<rparr> session_state0)) = Some IndexError"
proof -
  have a: "series example_metadata \<noteq> []" and b: "series no_series = []"
    by (simp_all add: example_metadata_def no_series_def)
  have c: "picklist_entry (hd (series example_metadata)) = ''SID123: ''"
    by (simp add: example_metadata_def picklist_entry_def untitled_def)
  have d: "snd (snd (display_api_query_builder demo_secrets (prepare_series_picklist example_metadata)
     1990 2024 no_input session_state0)) = Inr (False, ''DEMOKEY'', 2019, 2024, [''SID123''])"
    by (simp add: prepare_series_picklist_eq example_metadata_def picklist_entry_def untitled_def
        lns_def ces_def builder_nonempty no_input_def demo_secrets_def session_state0_def
        resolve_stored_def widget_value_def strip_def str_or_def)
  note t1 = first_entry_needs_series [of example_metadata demo_secrets 1990 2024 no_input
      session_state0]
  note t2 = first_entry_needs_series [of no_series demo_secrets 1990 2024 no_input
      session_state0
      "\<lparr>in_survey = ''CE'', in_survey_name = ''Consumer Expenditure Survey'',
      in_metadata = no_series, in_widgets = no_input,
      in_get_bls_data = (\<lambda>ids sy ey k. Inr (DataFrame example_frame, DataFrame0)),
      in_today = \<lparr>year = 2025, month = 6, day = 1\<rparr>\<rparr>"]
  from t1 t2 a b c d show ?thesis by simp
qed

subsection \<open>The code examples\<close>



subsection \<open>The result presenter\<close>

text \<open>
  Claim C1 says that with a non-empty log table the page shows the log table and no code
  panel, whatever the data table. A submission whose response has a non-empty log and a
  non-empty data table shows the log table and, after it, the three code panels; a
  submission whose response has a non-empty log and data that are not a DataFrame does not
  show the log table.
\<close>

theorem log_shown_alone_counterexample:
  "\<not> empty example_log \<and>
   ss_bls_log (fst (main demo_secrets failure_page session_state0)) = Some example_log \<and>
   Code (data_script [''SID123''] 2019 2024 ''your_api_key'')
     \<in> set (fst (snd (main demo_secrets failure_page session_state0))) \<and>
   Code (metadata_script ''Consumer Expenditure Survey'' ''your_api_key'')
     \<in> set (fst (snd (main demo_secrets failure_page session_state0))) \<and>
   License_notice \<in> set (fst (snd (main demo_secrets failure_page session_state0))) \<and>
   ss_bls_log (fst (main demo_secrets unframed_failure_page session_state0)) = Some example_log \<and>
   Write_table example_log
     \<notin> set (fst (snd (main demo_secrets unframed_failure_page session_state0)))"
  by (simp add: failure_run example_frames after_failure_def unframed_failure_run
      builder_page_def)

text \<open>
  Claim C1, amended. In a completed run whose stored log table is non-empty, the page shows
  none of the success banner, the balloons and the CSV download button. When the stored
  data are a DataFrame, the page shows the log table, and the code panels (the two snippets
  and the license notice) render exactly when that data table is non-empty. When the
  stored data are not a DataFrame, the page shows neither the log table nor the code panels.
\<close>

theorem log_shown_alone:
  assumes "snd (snd (main secrets inp st)) = None"
    and "ss_bls_log (fst (main secrets inp st)) = Some log"
    and "\<not> empty log"
    and "out = fst (snd (main secrets inp st))"
  shows "Success_banner \<notin> set out \<and> Balloons \<notin> set out \<and>
         (\<forall>label payload file_name mime. Download_button label payload file_name mime \<notin> set out) \<and>
         (\<forall>df. ss_bls_data (fst (main secrets inp st)) = Some (DataFrame df) \<longrightarrow>
            Write_table log \<in> set out \<and>
            ((\<exists>script. Code script \<in> set out) = (\<not> empty df)) \<and>
            (License_notice \<in> set out) = (\<not> empty df)) \<and>
         ((\<forall>df. ss_bls_data (fst (main secrets inp st)) \<noteq> Some (DataFrame df)) \<longrightarrow>
            Write_table log \<notin> set out \<and> (\<forall>script. Code script \<notin> set out) \<and>
            License_notice \<notin> set out)"
proof -
  from assms(1) obtain q st2 where
    Q: "snd (snd (builder_of secrets inp st)) = Inr q"
    and R: "snd (snd (display_results secrets (in_today inp) st2)) = None"
    and S: "fst (main secrets inp st) = fst (display_results secrets (in_today inp) st2)"
    and O: "fst (snd (main secrets inp st)) =
       fst (snd (builder_of secrets inp st)) @
       fst (snd (display_results secrets (in_today inp) st2))"
    by (rule main_completed)
  note U = builder_element_not [OF builder_of_ui [of secrets inp st]]
  from assms(2) S have l: "ss_bls_log st2 = Some log"
    by (simp add: display_results_stored)
  from S have dd: "ss_bls_data (fst (main secrets inp st)) = ss_bls_data st2"
    by (simp add: display_results_stored)
  show ?thesis
  proof (cases "\<exists>df. ss_bls_data st2 = Some (DataFrame df)")
    case True
    then obtain df where d: "ss_bls_data st2 = Some (DataFrame df)" by blast
    from R d obtain params where p: "ss_bls_params st2 = Some params"
      by (cases "ss_bls_params st2") (auto simp: display_results_def)
    note E = display_results_error_state [OF d p l assms(3), of secrets "in_today inp"]
    note C = display_code_elements [of secrets df "p_seriesids params" "p_startyear params"
        "p_endyear params" "p_registrationkey params" "p_survey_name params"]
    from O E have out: "out = fst (snd (builder_of secrets inp st)) @
        Write_table log # display_code secrets df (p_seriesids params) (p_startyear params)
          (p_endyear params) (p_registrationkey params) (p_survey_name params)"
      by (simp add: assms(4))
    show ?thesis
      unfolding out dd d using U C by auto
  next
    case False
    then have "\<And>df. ss_bls_data st2 \<noteq> Some (DataFrame df)" by blast
    from display_results_no_frame [OF this, of secrets "in_today inp"] O
    have out: "out = fst (snd (builder_of secrets inp st))"
      by (simp add: assms(4))
    show ?thesis
      unfolding out dd using U False by auto
  qed
qed

theorem log_shown_alone_witness:
  "snd (snd (main demo_secrets failure_page session_state0)) = None \<and>
   ss_bls_data (fst (main demo_secrets failure_page session_state0)) =
     Some (DataFrame example_frame) \<and>
   ss_bls_log (fst (main demo_secrets failure_page session_state0)) = Some example_log \<and>
   \<not> empty example_log \<and> \<not> empty example_frame \<and>
   Write_table example_log \<in> set (fst (snd (main demo_secrets failure_page session_state0))) \<and>
   Success_banner \<notin> set (fst (snd (main demo_secrets failure_page session_state0))) \<and>
   Balloons \<notin> set (fst (snd (main demo_secrets failure_page session_state0))) \<and>
   License_notice \<in> set (fst (snd (main demo_secrets failure_page session_state0))) \<and>
   snd (snd (main demo_secrets unframed_failure_page session_state0)) = None \<and>
   ss_bls_data (fst (main demo_secrets unframed_failure_page session_state0)) =
     Some NotDataFrame \<and>
   ss_bls_log (fst (main demo_secrets unframed_failure_page session_state0)) =
     Some example_log \<and>
   Write_table example_log
     \<notin> set (fst (snd (main demo_secrets unframed_failure_page session_state0))) \<and>
   License_notice \<notin> set (fst (snd (main demo_secrets unframed_failure_page session_state0)))"
proof -
  have h1: "snd (snd (main demo_secrets failure_page session_state0)) = None"
    by (rule failure_run)
  have h2: "ss_bls_data (fst (main demo_secrets failure_page session_state0)) =
     Some (DataFrame example_frame)"
    and h3: "ss_bls_log (fst (main demo_secrets failure_page session_state0)) = Some example_log"
    by (simp_all add: failure_run after_failure_def)
  have h4: "\<not> empty example_log" by (rule example_frames)
  note a = log_shown_alone [OF h1 h3 h4 refl]
  note b = log_shown_alone [OF unframed_failure_run(1) unframed_failure_run(3) h4 refl]
  from a h2 have a': "Write_table example_log
      \<in> set (fst (snd (main demo_secrets failure_page session_state0))) \<and>
    Success_banner \<notin> set (fst (snd (main demo_secrets failure_page session_state0))) \<and>
    Balloons \<notin> set (fst (snd (main demo_secrets failure_page session_state0))) \<and>
    License_notice \<in> set (fst (snd (main demo_secrets failure_page session_state0)))"
    using example_frames(1) by simp
  from b unframed_failure_run(2) have b': "Write_table example_log
      \<notin> set (fst (snd (main demo_secrets unframed_failure_page session_state0))) \<and>
    License_notice \<notin> set (fst (snd (main demo_secrets unframed_failure_page session_state0)))"
    by simp
  from a' b' h1 h2 h3 h4 example_frames(1) unframed_failure_run show ?thesis by simp
qed

text \<open>
  Claim C6 says that with an empty stored log table the balloons render on the run of a
  fresh submission. A submission whose response has an empty log and data that are not a
  DataFrame shows no balloons and leaves the flag set.
\<close>

theorem balloons_once_counterexample:
  "get_data_pressed (in_widgets unframed_page) \<and>
   snd (snd (main demo_secrets unframed_page session_state0)) = None \<and>
   ss_bls_log (fst (main demo_secrets unframed_page session_state0)) = Some DataFrame0 \<and>
   empty DataFrame0 \<and>
   Balloons \<notin> set (fst (snd (main demo_secrets unframed_page session_state0))) \<and>
   ss_show_balloons (fst (main demo_secrets unframed_page session_state0)) = Some True"
  by (simp add: unframed_run example_frames builder_page_def)
     (simp add: unframed_page_def example_page_def pressing_def)

text \<open>
  Claim C6, amended. Take a completed run that handles a submission and stores an empty
  log table. When the stored data are a DataFrame, the run shows the balloons exactly once
  and clears the flag. When the stored data are not a DataFrame, the run shows no balloons
  and the flag stays set. In both cases no later run without a new submission shows the
  balloons.
\<close>

theorem balloons_once:
  assumes "get_data_pressed (in_widgets inp1)"
    and "snd (snd (main secrets inp1 st0)) = None"
    and "st1 = fst (main secrets inp1 st0)"
    and "ss_bls_log st1 = Some log"
    and "empty log"
    and "list_all (\<lambda>i. \<not> get_data_pressed (in_widgets i)) (inps @ [inp2])"
  shows "(\<forall>df. ss_bls_data st1 = Some (DataFrame df) \<longrightarrow>
            count_list (fst (snd (main secrets inp1 st0))) Balloons = 1 \<and>
            ss_show_balloons st1 = Some False) \<and>
         ((\<forall>df. ss_bls_data st1 \<noteq> Some (DataFrame df)) \<longrightarrow>
            count_list (fst (snd (main secrets inp1 st0))) Balloons = 0 \<and>
            ss_show_balloons st1 = Some True) \<and>
         Balloons \<notin> set (fst (snd (main secrets inp2 (run secrets inps st1))))"
proof -
  from assms(2) obtain q st2 where
    Q: "snd (snd (builder_of secrets inp1 st0)) = Inr q"
    and H: "handle_submission inp1 q (fst (builder_of secrets inp1 st0)) = Inr st2"
    and S: "fst (main secrets inp1 st0) = fst (display_results secrets (in_today inp1) st2)"
    and O: "fst (snd (main secrets inp1 st0)) =
       fst (snd (builder_of secrets inp1 st0)) @
       fst (snd (display_results secrets (in_today inp1) st2))"
    by (rule main_completed)
  from builder_of_pressed [OF Q] assms(1) have "fst q" by simp
  from handle_submission_pressed [OF H this] obtain p where
    flag: "ss_show_balloons st2 = Some True" and p: "ss_bls_params st2 = Some p" by auto
  from assms(3,4) S have l: "ss_bls_log st2 = Some log"
    and dd: "ss_bls_data st1 = ss_bls_data st2"
    by (simp_all add: display_results_stored)
  have ui: "count_list (fst (snd (builder_of secrets inp1 st0))) Balloons = 0"
    using builder_element_not [OF builder_of_ui [of secrets inp1 st0]]
    by (simp add: count_list_0_iff)
  have framed: "count_list (fst (snd (main secrets inp1 st0))) Balloons = 1 \<and>
      ss_show_balloons st1 = Some False"
    if d: "ss_bls_data st2 = Some (DataFrame df)" for df
  proof -
    note E = display_results_success_state [OF d p l assms(5), of secrets "in_today inp1"]
    from O E flag ui have "count_list (fst (snd (main secrets inp1 st0))) Balloons = 1"
      by (simp add: display_code_no_balloons)
    moreover from S E flag assms(3) have "ss_show_balloons st1 = Some False" by simp
    ultimately show ?thesis by simp
  qed
  have unframed: "count_list (fst (snd (main secrets inp1 st0))) Balloons = 0 \<and>
      ss_show_balloons st1 = Some True"
    if "\<forall>df. ss_bls_data st2 \<noteq> Some (DataFrame df)"
  proof -
    from that have "\<And>df. ss_bls_data st2 \<noteq> Some (DataFrame df)" by blast
    note E = display_results_no_frame [OF this, of secrets "in_today inp1"]
    from O E ui S flag assms(3) show ?thesis by simp
  qed
  have quiet: "ss_show_balloons st1 \<noteq> Some True \<or> (\<forall>df. ss_bls_data st1 \<noteq> Some (DataFrame df))"
    using framed dd by (cases "\<exists>df. ss_bls_data st2 = Some (DataFrame df)") auto
  from assms(6) have idle: "list_all (\<lambda>i. \<not> get_data_pressed (in_widgets i)) inps"
    and last: "\<not> get_data_pressed (in_widgets inp2)" by simp_all
  from main_idle_quiet [OF last run_idle_quiet [OF idle quiet, of secrets], of secrets]
  have later: "Balloons \<notin> set (fst (snd (main secrets inp2 (run secrets inps st1))))"
    by simp
  from framed unframed later show ?thesis unfolding dd by blast
qed

theorem balloons_once_witness:
  "get_data_pressed (in_widgets success_page) \<and>
   snd (snd (main demo_secrets success_page session_state0)) = None \<and>
   ss_bls_data (fst (main demo_secrets success_page session_state0)) =
     Some (DataFrame example_frame) \<and>
   ss_bls_log (fst (main demo_secrets success_page session_state0)) = Some DataFrame0 \<and>
   empty DataFrame0 \<and>
   \<not> get_data_pressed (in_widgets idle_page) \<and>
   count_list (fst (snd (main demo_secrets success_page session_state0))) Balloons = 1 \<and>
   ss_show_balloons (fst (main demo_secrets success_page session_state0)) = Some False \<and>
   Balloons \<notin> set (fst (snd (main demo_secrets idle_page
     (run demo_secrets [idle_page] (fst (main demo_secrets success_page session_state0)))))) \<and>
   get_data_pressed (in_widgets unframed_page) \<and>
   snd (snd (main demo_secrets unframed_page session_state0)) = None \<and>
   ss_bls_data (fst (main demo_secrets unframed_page session_state0)) = Some NotDataFrame \<and>
   ss_bls_log (fst (main demo_secrets unframed_page session_state0)) = Some DataFrame0 \<and>
   count_list (fst (snd (main demo_secrets unframed_page session_state0))) Balloons = 0 \<and>
   ss_show_balloons (fst (main demo_secrets unframed_page session_state0)) = Some True \<and>
   Balloons \<notin> set (fst (snd (main demo_secrets idle_page
     (run demo_secrets [idle_page] (fst (main demo_secrets unframed_page session_state0))))))"
proof -
  have h1: "get_data_pressed (in_widgets success_page)"
    by (simp add: success_page_def example_page_def pressing_def)
  have h2: "snd (snd (main demo_secrets success_page session_state0)) = None"
    by (rule success_run)
  have h4: "ss_bls_data (fst (main demo_secrets success_page session_state0)) =
     Some (DataFrame example_frame)"
    and h5: "ss_bls_log (fst (main demo_secrets success_page session_state0)) = Some DataFrame0"
    by (simp_all add: success_run after_success_def)
  have h6: "empty DataFrame0" by (rule example_frames)
  have i: "\<not> get_data_pressed (in_widgets idle_page)"
    by (simp add: idle_page_def example_page_def no_input_def)
  then have h7: "list_all (\<lambda>i. \<not> get_data_pressed (in_widgets i)) ([idle_page] @ [idle_page])"
    by simp
  have u1: "get_data_pressed (in_widgets unframed_page)"
    by (simp add: unframed_page_def example_page_def pressing_def)
  note a = balloons_once [OF h1 h2 refl h5 h6 h7]
  note b = balloons_once [OF u1 unframed_run(1) refl unframed_run(3) h6 h7]
  from a h4 have a': "count_list (fst (snd (main demo_secrets success_page session_state0)))
      Balloons = 1 \<and>
    ss_show_balloons (fst (main demo_secrets success_page session_state0)) = Some False \<and>
    Balloons \<notin> set (fst (snd (main demo_secrets idle_page
      (run demo_secrets [idle_page] (fst (main demo_secrets success_page session_state0))))))"
    by simp
  from b unframed_run(2) have b': "count_list
      (fst (snd (main demo_secrets unframed_page session_state0))) Balloons = 0 \<and>
    ss_show_balloons (fst (main demo_secrets unframed_page session_state0)) = Some True \<and>
    Balloons \<notin> set (fst (snd (main demo_secrets idle_page
      (run demo_secrets [idle_page] (fst (main demo_secrets unframed_page session_state0))))))"
    by simp
  from a' b' h1 h2 h4 h5 h6 i u1 unframed_run(1,2,3) show ?thesis by simp
qed

text \<open>
  Claim C9. For a stored data table with an empty log, rendered on a date with a four-digit
  year, with the stored survey abbreviation, the page offers one CSV download. Its file
  name is the four digits of the year, a hyphen, the two digits of the month, a hyphen, the
  two digits of the day, a blank, the abbreviation and \<open>.csv\<close>. Its MIME type is
  \<open>text/csv\<close>. Its data are the line of the column names followed by the lines of the
  rows; when no cell needs quoting, splitting the data into lines and the lines at the
  commas gives back the column names, in the table's order, and then the rows.
\<close>

theorem csv_download:
  assumes "ss_bls_data st = Some (DataFrame df)"
    and "ss_bls_params st = Some params"
    and "ss_bls_log st = Some log"
    and "empty log"
    and "out = fst (snd (display_results secrets today st))"
    and "1000 \<le> year today" and "year today \<le> 9999"
    and "month today \<le> 12" and "day today \<le> 31"
    and "D = [''0123456789'' ! (year today div 1000), ''0123456789'' ! (year today div 100 mod 10),
              ''0123456789'' ! (year today div 10 mod 10), ''0123456789'' ! (year today mod 10),
              CHR ''-'',
              ''0123456789'' ! (month today div 10), ''0123456789'' ! (month today mod 10),
              CHR ''-'',
              ''0123456789'' ! (day today div 10), ''0123456789'' ! (day today mod 10)]"
  shows "Download_button ''Download CSV File'' (to_csv df False)
           (D @ '' '' @ p_survey params @ ''.csv'') ''text/csv'' \<in> set out \<and>
         (\<forall>label payload file_name mime.
            Download_button label payload file_name mime \<in> set out \<longrightarrow>
            payload = to_csv df False \<and>
            file_name = D @ '' '' @ p_survey params @ ''.csv'' \<and>
            mime = ''text/csv'') \<and>
         to_csv df False = csv_line (df_columns df) @ concat (map csv_line (df_rows df)) \<and>
         (plain_row (df_columns df) \<and> list_all plain_row (df_rows df) \<longrightarrow>
            map (split (CHR '','')) (butlast (split (CHR 0x0A) (to_csv df False))) =
              df_columns df # df_rows df)"
proof -
  note E = display_results_success_state [OF assms(1-4), of secrets today]
  note C = display_code_elements [of secrets df "p_seriesids params" "p_startyear params"
      "p_endyear params" "p_registrationkey params" "p_survey_name params"]
  from assms(6-10) have D: "strftime_Ymd today = D"
    by (simp only: strftime_Ymd_digits)
  have button: "Download_button ''Download CSV File'' (to_csv df False)
           (D @ '' '' @ p_survey params @ ''.csv'') ''text/csv'' \<in> set out"
    using E assms(5) by (simp add: D)
  have only: "payload = to_csv df False \<and> file_name = D @ '' '' @ p_survey params @ ''.csv'' \<and>
      mime = ''text/csv''"
    if "Download_button label payload file_name mime \<in> set out"
    for label payload file_name mime
    using that E assms(5) C by (auto simp: D)
  have csv: "to_csv df False = csv_line (df_columns df) @ concat (map csv_line (df_rows df))"
    by (simp add: to_csv_def)
  from button only csv to_csv_read_back [of df] show ?thesis by blast
qed

theorem csv_download_witness:
  "ss_bls_data after_success = Some (DataFrame example_frame) \<and>
   ss_bls_params after_success = Some first_params \<and>
   ss_bls_log after_success = Some DataFrame0 \<and> empty DataFrame0 \<and>
   p_survey first_params = ''CE'' \<and>
   plain_row (df_columns example_frame) \<and> list_all plain_row (df_rows example_frame) \<and>
   Download_button ''Download CSV File''
     (''series_id,year,value'' @ [CHR 0x0A] @ ''LNS14000000,2024,4.1'' @ [CHR 0x0A])
     ''2025-06-01 CE.csv'' ''text/csv''
     \<in> set (fst (snd (display_results demo_secrets \<lparr>year = 2025, month = 6, day = 1\<rparr>
           after_success))) \<and>
   map (split (CHR '','')) (butlast (split (CHR 0x0A) (to_csv example_frame False))) =
     [''series_id'', ''year'', ''value''] # [''LNS14000000'', ''2024'', ''4.1''] # []"
proof -
  have d: "ss_bls_data after_success = Some (DataFrame example_frame)"
    and p: "ss_bls_params after_success = Some first_params"
    and l: "ss_bls_log after_success = Some DataFrame0"
    by (simp_all add: after_success_def)
  have e: "empty DataFrame0" by (rule example_frames)
  have s: "p_survey first_params = ''CE''" by (simp add: first_params_def)
  have pr: "plain_row (df_columns example_frame)" "list_all plain_row (df_rows example_frame)"
    by (simp_all add: example_frame_def plain_row_def plain_def)
  have D: "''2025-06-01'' =
     [''0123456789'' ! (year \<lparr>year = 2025, month = 6, day = 1\<rparr> div 1000),
      ''0123456789'' ! (year \<lparr>year = 2025, month = 6, day = 1\<rparr> div 100 mod 10),
      ''0123456789'' ! (year \<lparr>year = 2025, month = 6, day = 1\<rparr> div 10 mod 10),
      ''0123456789'' ! (year \<lparr>year = 2025, month = 6, day = 1\<rparr> mod 10),
      CHR ''-'',
      ''0123456789'' ! (month \<lparr>year = 2025, month = 6, day = 1\<rparr> div 10),
      ''0123456789'' ! (month \<lparr>year = 2025, month = 6, day = 1\<rparr> mod 10),
      CHR ''-'',
      ''0123456789'' ! (day \<lparr>year = 2025, month = 6, day = 1\<rparr> div 10),
      ''0123456789'' ! (day \<lparr>year = 2025, month = 6, day = 1\<rparr> mod 10)]"
    by simp
  have b: "1000 \<le> year \<lparr>year = 2025, month = 6, day = 1\<rparr>"
    "year \<lparr>year = 2025, month = 6, day = 1\<rparr> \<le> 9999"
    "month \<lparr>year = 2025, month = 6, day = 1\<rparr> \<le> 12"
    "day \<lparr>year = 2025, month = 6, day = 1\<rparr> \<le> 31"
    by simp_all
  note t = csv_download [OF d p l e refl, where secrets = demo_secrets
      and today = "\<lparr>year = 2025, month = 6, day = 1\<rparr>" and D = "''2025-06-01''",
      OF b D]
  from t [THEN conjunct1]
  have t1: "Download_button ''Download CSV File'' (to_csv example_frame False)
           (''2025-06-01'' @ '' '' @ p_survey first_params @ ''.csv'') ''text/csv''
        \<in> set (fst (snd (display_results demo_secrets \<lparr>year = 2025, month = 6, day = 1\<rparr>
           after_success)))"
    by simp
  from t [THEN conjunct2, THEN conjunct2, THEN conjunct2] pr
  have t2: "map (split (CHR '','')) (butlast (split (CHR 0x0A) (to_csv example_frame False))) =
       df_columns example_frame # df_rows example_frame"
    by blast
  from t1 have "Download_button ''Download CSV File''
     (''series_id,year,value'' @ [CHR 0x0A] @ ''LNS14000000,2024,4.1'' @ [CHR 0x0A])
     ''2025-06-01 CE.csv'' ''text/csv''
     \<in> set (fst (snd (display_results demo_secrets \<lparr>year = 2025, month = 6, day = 1\<rparr>
           after_success)))"
    unfolding example_csv s by simp
  moreover from t2 have "map (split (CHR '','')) (butlast (split (CHR 0x0A)
      (to_csv example_frame False))) =
     [''series_id'', ''year'', ''value''] # [''LNS14000000'', ''2024'', ''4.1''] # []"
    by (simp add: example_frame_def)
  ultimately show ?thesis using d p l e s pr by simp
qed

subsection \<open>The session state store\<close>

text \<open>
  Claim C8. A run either leaves the keys data, log and params of the session state as they
  are or, when it handles a submission, replaces the three together. So after any sequence
  of runs from the empty session state the three keys are all absent, or they hold the data
  and the log the client returned in the last submission together with the parameters of
  that same request.
\<close>

theorem stored_result_of_last_submission:
  "stored_result (fst (main secrets inp st)) =
     (case submission secrets inp st of
        None \<Rightarrow> stored_result st
      | Some (d, l, p) \<Rightarrow> (Some d, Some l, Some p)) \<and>
   stored_result (run secrets inps session_state0) =
     (case last_submission secrets inps session_state0 of
        None \<Rightarrow> (None, None, None)
      | Some (d, l, p) \<Rightarrow> (Some d, Some l, Some p)) \<and>
   (\<forall>d l p. stored_result (run secrets inps session_state0) = (Some d, Some l, Some p) \<longrightarrow>
      (\<exists>inp \<in> set inps. get_data_pressed (in_widgets inp) \<and>
         in_get_bls_data inp (p_seriesids p) (p_startyear p) (p_endyear p) (p_registrationkey p) =
           Inr (d, l) \<and>
         p_survey_name p = in_survey_name inp \<and> p_survey p = in_survey inp))"
proof -
  have s0: "stored_result session_state0 = (None, None, None)"
    by (simp add: stored_result_def session_state0_def)
  have a: "stored_result (run secrets inps session_state0) =
     (case last_submission secrets inps session_state0 of
        None \<Rightarrow> (None, None, None)
      | Some (d, l, p) \<Rightarrow> (Some d, Some l, Some p))"
    unfolding run_stored s0 by (rule refl)
  have b: "\<exists>inp \<in> set inps. get_data_pressed (in_widgets inp) \<and>
         in_get_bls_data inp (p_seriesids p) (p_startyear p) (p_endyear p) (p_registrationkey p) =
           Inr (d, l) \<and>
         p_survey_name p = in_survey_name inp \<and> p_survey p = in_survey inp"
    if "stored_result (run secrets inps session_state0) = (Some d, Some l, Some p)" for d l p
  proof -
    from that a have "last_submission secrets inps session_state0 = Some (d, l, p)"
      by (auto split: option.splits)
    then show ?thesis by (rule last_submission_sound)
  qed
  from main_stored [of secrets inp st] a b show ?thesis by blast
qed

theorem stored_result_of_last_submission_witness:
  "stored_result (run demo_secrets [success_page, idle_page, failure_page] session_state0) =
     (Some (DataFrame example_frame), Some example_log, Some first_params) \<and>
   in_get_bls_data failure_page (p_seriesids first_params) (p_startyear first_params)
     (p_endyear first_params) (p_registrationkey first_params) =
     Inr (DataFrame example_frame, example_log) \<and>
   (\<exists>inp \<in> set [success_page, idle_page, failure_page].
      get_data_pressed (in_widgets inp) \<and>
      in_get_bls_data inp (p_seriesids first_params) (p_startyear first_params)
        (p_endyear first_params) (p_registrationkey first_params) =
        Inr (DataFrame example_frame, example_log) \<and>
      p_survey_name first_params = in_survey_name inp \<and> p_survey first_params = in_survey inp)"
proof -
  have ev: "stored_result (run demo_secrets [success_page, idle_page, failure_page]
      session_state0) = (Some (DataFrame example_frame), Some example_log, Some first_params)"
    by (simp add: success_run idle_run failure_run stored_result_def after_failure_def)
  have c: "in_get_bls_data failure_page (p_seriesids first_params) (p_startyear first_params)
     (p_endyear first_params) (p_registrationkey first_params) =
     Inr (DataFrame example_frame, example_log)"
    by (simp add: failure_page_def example_page_def)
  from stored_result_of_last_submission [where secrets = demo_secrets
      and inps = "[success_page, idle_page, failure_page]" and inp = failure_page
      and st = after_success] ev c
  show ?thesis by blast
qed

end
